theory Spec2Isabelle
  imports Main "HOL-Library.Word" "HOL-Library.Sublist"
begin

section \<open>Decentralized identity: the record model and its off-chain operations\<close>

text \<open>
  The development follows the off-chain implementations of the identity contract:
  the MeshJS module (\<^verbatim>\<open>identity.ts\<close> and \<^verbatim>\<open>did-resolver.ts\<close>, both in
  \<^verbatim>\<open>src/unnamed/part_004\<close>), the Lucid Evolution module
  (\<^verbatim>\<open>offchain/lucid-evolution/did-resolver.ts\<close>) and the Java classes
  (\<^verbatim>\<open>offchain/ccl-java/DIDResolver.java\<close>).

  The values \<open>nonce\<close> and \<open>validUntil\<close>, the times and the durations (in milliseconds)
  are integers: the on-chain \<^verbatim>\<open>Int\<close> and the \<^verbatim>\<open>bigint\<close> of the Lucid module are the
  mathematical integers. The MeshJS module holds them in a \<^verbatim>\<open>number\<close>, whose sums and
  differences are rounded to 53 significant bits (\<open>js_add\<close>, \<open>js_sub\<close> below), and the
  Java classes in a \<^verbatim>\<open>long\<close>, a word of 64 bits whose sums wrap around.
  Strings are lists of characters; \<^verbatim>\<open>===\<close> on strings is equality of the lists.
  Every reading of the clock (\<^verbatim>\<open>Date.now()\<close>) is an explicit argument, and a datum
  that is present on chain is taken as decoded.
\<close>

subsection \<open>Data model\<close>

text \<open>\<^verbatim>\<open>interface Delegate { delegateAddress; delegateType; validUntil }\<close>\<close>

record Delegate =
  delegateAddress :: string
  delegateType :: string
  validUntil :: int

text \<open>\<^verbatim>\<open>interface Attribute { name; value; validUntil }\<close>\<close>

record Attribute =
  attrName :: string
  attrValue :: string
  attrValidUntil :: int

text \<open>\<^verbatim>\<open>interface IdentityDatum { identity; owner; delegates; attributes; nonce }\<close>\<close>

record IdentityDatum =
  identity :: string
  owner :: string
  delegates :: "Delegate list"
  attributes :: "Attribute list"
  nonce :: int

text \<open>
  The redeemer of a spend: constructor index 0 to 4, with the fields the builders put
  into \<^verbatim>\<open>mConStr0\<close> ... \<^verbatim>\<open>mConStr4\<close>.
\<close>

datatype IdentityAction =
    ChangeOwner string
  | AddDelegate string string int
  | RevokeDelegate string string
  | SetAttribute string string int
  | RevokeAttribute string string

subsection \<open>Expiry\<close>

text \<open>\<^verbatim>\<open>return delegate.validUntil === 0 || delegate.validUntil > currentTime;\<close>\<close>

definition isDelegateValid :: "Delegate \<Rightarrow> int \<Rightarrow> bool" where
  "isDelegateValid delegate currentTime \<longleftrightarrow>
     validUntil delegate = 0 \<or> validUntil delegate > currentTime"

text \<open>\<^verbatim>\<open>return attribute.validUntil === 0 || attribute.validUntil > currentTime;\<close>\<close>

definition isAttributeValid :: "Attribute \<Rightarrow> int \<Rightarrow> bool" where
  "isAttributeValid attribute currentTime \<longleftrightarrow>
     attrValidUntil attribute = 0 \<or> attrValidUntil attribute > currentTime"

subsection \<open>The arithmetic of a JavaScript \<^verbatim>\<open>number\<close>\<close>

text \<open>
  A \<^verbatim>\<open>number\<close> is an IEEE 754 double. The numbers of the MeshJS module are
  integer-valued: the fields of a decoded datum are \<^verbatim>\<open>Number(...)\<close> of an on-chain
  integer, the clock is \<^verbatim>\<open>Date.now()\<close>, a validity is a count of milliseconds. They are
  modelled by the integer they denote. The operators \<^verbatim>\<open>+\<close> and \<^verbatim>\<open>-\<close> return the double
  nearest to the exact result, the one with the even significand when two are equally
  near. \<open>float53\<close> is this rounding on the integers: an integer of magnitude at most
  \<open>2\<^sup>5\<^sup>3\<close> is a double; a larger one has \<open>bitlen\<close> more than 53 bits and keeps its 53
  leading bits, rounded. (Magnitudes from \<open>2\<^sup>1\<^sup>0\<^sup>2\<^sup>4\<close>, where a double is
  \<^verbatim>\<open>Infinity\<close>, are not represented.)
\<close>

fun bitlen :: "int \<Rightarrow> nat" where
  "bitlen n = (if n \<le> 0 then 0 else Suc (bitlen (n div 2)))"

declare bitlen.simps [simp del]

definition float53 :: "int \<Rightarrow> int" where
  "float53 x =
     (if \<bar>x\<bar> \<le> 2 ^ 53 then x
      else (let ulp = 2 ^ (bitlen \<bar>x\<bar> - 53);
                q = \<bar>x\<bar> div ulp;
                r = \<bar>x\<bar> mod ulp;
                q' = (if 2 * r > ulp \<or> (2 * r = ulp \<and> odd q) then q + 1 else q)
            in sgn x * (q' * ulp)))"

definition js_add :: "int \<Rightarrow> int \<Rightarrow> int" where
  "js_add a b = float53 (a + b)"

definition js_sub :: "int \<Rightarrow> int \<Rightarrow> int" where
  "js_sub a b = float53 (a - b)"

subsection \<open>The MeshJS transaction builders\<close>

text \<open>
  What a builder reads from the chain, from the wallet and from its own object: the
  UTxOs at the script address (each with its assets and, when present, its decoded inline
  datum), the policy id of the identity NFT, the script address, and the address, the key
  hash and the collateral UTxOs of the wallet.
\<close>

record Asset =
  unit :: string
  quantity :: string

record UTxO =
  amount :: "Asset list"
  plutusData :: "IdentityDatum option"

record Env =
  identityNftPolicyId :: string
  identityScriptAddress :: string
  scriptUtxos :: "UTxO list"
  walletAddress :: string
  walletPkh :: string
  walletCollateral :: "UTxO list"

text \<open>
  The \<^verbatim>\<open>throw new Error(...)\<close> of the builders: no collateral in the wallet (MeshJS),
  validators not loaded (Lucid), identity UTxO not found, identity NFT not found.
\<close>

datatype BuildError =
  NoCollateral | ValidatorsNotLoaded | IdentityUtxoNotFound | IdentityNftNotFound

text \<open>
  The part of the built transaction that the contract sees: the spent identity UTxO, the
  redeemer, the assets and the inline datum of the continuing output, the collateral
  when the builder names one, the required signer, and the declared validity interval
  (\<^verbatim>\<open>validFrom\<close>, \<^verbatim>\<open>validTo\<close>) when the builder sets one.
\<close>

record Tx =
  txIn :: UTxO
  txRedeemer :: IdentityAction
  txOutAddress :: string
  txOutAssets :: "Asset list"
  txOutDatum :: IdentityDatum
  txInCollateral :: "UTxO option"
  requiredSignerHash :: string
  validFrom :: "int option"
  validTo :: "int option"

text \<open>
  \<^verbatim>\<open>findIdentityUtxo\<close>: the first UTxO at the script address that holds an asset whose
  unit starts with the policy id and that carries a datum.
\<close>

definition findIdentityUtxo :: "Env \<Rightarrow> UTxO option" where
  "findIdentityUtxo env =
     find (\<lambda>utxo. list_ex (\<lambda>asset. prefix (identityNftPolicyId env) (unit asset)) (amount utxo)
                   \<and> plutusData utxo \<noteq> None)
          (scriptUtxos env)"

text \<open>
  The opening of every builder: take the collateral of the wallet (\<^verbatim>\<open>getCollateral\<close>
  throws when there is none), fetch the identity UTxO (or throw), parse its datum, find
  the NFT asset (or throw) and cut the token name out of its unit
  (\<^verbatim>\<open>nftAsset.unit.slice(56)\<close>).
\<close>

definition currentIdentity :: "Env \<Rightarrow> BuildError + (UTxO \<times> IdentityDatum \<times> string)" where
  "currentIdentity env =
     (if walletCollateral env = [] then Inl NoCollateral
      else
     (case findIdentityUtxo env of
        None \<Rightarrow> Inl IdentityUtxoNotFound
      | Some identityUtxo \<Rightarrow>
          (case plutusData identityUtxo of
             None \<Rightarrow> Inl IdentityUtxoNotFound
           | Some currentDatum \<Rightarrow>
               (case find (\<lambda>a. prefix (identityNftPolicyId env) (unit a)) (amount identityUtxo) of
                  None \<Rightarrow> Inl IdentityNftNotFound
                | Some nftAsset \<Rightarrow> Inr (identityUtxo, currentDatum, drop 56 (unit nftAsset))))))"

text \<open>
  The continuing output, the collateral (\<^verbatim>\<open>collaterals[0]\<close>) and the signer, the same
  in the five builders.
\<close>

definition spendTx ::
  "Env \<Rightarrow> UTxO \<Rightarrow> string \<Rightarrow> IdentityAction \<Rightarrow> IdentityDatum \<Rightarrow> int option \<Rightarrow> int option \<Rightarrow> Tx" where
  "spendTx env identityUtxo tokenName action newDatum vFrom vTo =
     \<lparr>txIn = identityUtxo,
      txRedeemer = action,
      txOutAddress = identityScriptAddress env,
      txOutAssets = [\<lparr>unit = ''lovelace'', quantity = ''2000000''\<rparr>,
                     \<lparr>unit = identityNftPolicyId env @ tokenName, quantity = ''1''\<rparr>],
      txOutDatum = newDatum,
      txInCollateral = (case walletCollateral env of [] \<Rightarrow> None | c # cs \<Rightarrow> Some c),
      requiredSignerHash = walletPkh env,
      validFrom = vFrom,
      validTo = vTo\<rparr>"

text \<open>\<^verbatim>\<open>changeOwner(newOwnerPkh)\<close>\<close>

definition changeOwner :: "Env \<Rightarrow> string \<Rightarrow> BuildError + Tx" where
  "changeOwner env newOwnerPkh =
     (case currentIdentity env of
        Inl e \<Rightarrow> Inl e
      | Inr (identityUtxo, currentDatum, tokenName) \<Rightarrow>
          (let newDatum = currentDatum\<lparr>owner := newOwnerPkh, nonce := js_add (nonce currentDatum) 1\<rparr>
           in Inr (spendTx env identityUtxo tokenName (ChangeOwner newOwnerPkh) newDatum None None)))"

text \<open>
  \<^verbatim>\<open>addDelegate(delegateType, delegatePkh, validityMs)\<close>; \<open>currentTime\<close> is the one
  reading of \<^verbatim>\<open>Date.now()\<close> that the builder takes.
\<close>

definition addDelegate :: "Env \<Rightarrow> string \<Rightarrow> string \<Rightarrow> int \<Rightarrow> int \<Rightarrow> BuildError + Tx" where
  "addDelegate env dType delegatePkh validityMs currentTime =
     (case currentIdentity env of
        Inl e \<Rightarrow> Inl e
      | Inr (identityUtxo, currentDatum, tokenName) \<Rightarrow>
          (let validUntil' = (if validityMs = 0 then 0 else js_add currentTime validityMs);
               existingDelegates =
                 filter (\<lambda>d. \<not> (delegateAddress d = delegatePkh \<and> delegateType d = dType))
                        (delegates currentDatum);
               newDelegates = existingDelegates @
                 [\<lparr>delegateAddress = delegatePkh, delegateType = dType, validUntil = validUntil'\<rparr>];
               newDatum = currentDatum\<lparr>delegates := newDelegates,
                                       nonce := js_add (nonce currentDatum) 1\<rparr>
           in Inr (spendTx env identityUtxo tokenName (AddDelegate dType delegatePkh validityMs)
                     newDatum (Some (js_sub currentTime 60000)) (Some (js_add currentTime 600000)))))"

text \<open>\<^verbatim>\<open>revokeDelegate(delegateType, delegatePkh)\<close>\<close>

definition revokeDelegate :: "Env \<Rightarrow> string \<Rightarrow> string \<Rightarrow> BuildError + Tx" where
  "revokeDelegate env dType delegatePkh =
     (case currentIdentity env of
        Inl e \<Rightarrow> Inl e
      | Inr (identityUtxo, currentDatum, tokenName) \<Rightarrow>
          (let newDelegates =
                 filter (\<lambda>d. \<not> (delegateAddress d = delegatePkh \<and> delegateType d = dType))
                        (delegates currentDatum);
               newDatum = currentDatum\<lparr>delegates := newDelegates,
                                       nonce := js_add (nonce currentDatum) 1\<rparr>
           in Inr (spendTx env identityUtxo tokenName (RevokeDelegate dType delegatePkh)
                     newDatum None None)))"

text \<open>\<^verbatim>\<open>setAttribute(name, value, validityMs)\<close>\<close>

definition setAttribute :: "Env \<Rightarrow> string \<Rightarrow> string \<Rightarrow> int \<Rightarrow> int \<Rightarrow> BuildError + Tx" where
  "setAttribute env name val validityMs currentTime =
     (case currentIdentity env of
        Inl e \<Rightarrow> Inl e
      | Inr (identityUtxo, currentDatum, tokenName) \<Rightarrow>
          (let validUntil' = (if validityMs = 0 then 0 else js_add currentTime validityMs);
               existingAttributes = filter (\<lambda>a. attrName a \<noteq> name) (attributes currentDatum);
               newAttributes = existingAttributes @
                 [\<lparr>attrName = name, attrValue = val, attrValidUntil = validUntil'\<rparr>];
               newDatum = currentDatum\<lparr>attributes := newAttributes,
                                       nonce := js_add (nonce currentDatum) 1\<rparr>
           in Inr (spendTx env identityUtxo tokenName (SetAttribute name val validityMs)
                     newDatum (Some (js_sub currentTime 60000)) (Some (js_add currentTime 600000)))))"

text \<open>\<^verbatim>\<open>revokeAttribute(name, value)\<close>\<close>

definition revokeAttribute :: "Env \<Rightarrow> string \<Rightarrow> string \<Rightarrow> BuildError + Tx" where
  "revokeAttribute env name val =
     (case currentIdentity env of
        Inl e \<Rightarrow> Inl e
      | Inr (identityUtxo, currentDatum, tokenName) \<Rightarrow>
          (let newAttributes =
                 filter (\<lambda>a. \<not> (attrName a = name \<and> attrValue a = val)) (attributes currentDatum);
               newDatum = currentDatum\<lparr>attributes := newAttributes,
                                       nonce := js_add (nonce currentDatum) 1\<rparr>
           in Inr (spendTx env identityUtxo tokenName (RevokeAttribute name val)
                     newDatum None None)))"

text \<open>The Record a builder produces, when it produces one.\<close>

definition produced :: "BuildError + Tx \<Rightarrow> IdentityDatum option" where
  "produced r = (case r of Inl e \<Rightarrow> None | Inr tx \<Rightarrow> Some (txOutDatum tx))"

subsection \<open>The Lucid Evolution transaction builders\<close>

text \<open>
  The Lucid module computes the same Records with \<^verbatim>\<open>bigint\<close> arithmetic. Its opening
  names no collateral; \<^verbatim>\<open>findIdentityUtxo\<close> throws when the address of the validator
  is not set (\<^verbatim>\<open>!this.identityValidatorAddress\<close>, which an unset and an empty address
  satisfy); and the token name is
  \<^verbatim>\<open>Object.keys(utxo.assets).find((unit) => unit.startsWith(policyId))?.slice(56)\<close>,
  with \<^verbatim>\<open>if (!tokenName)\<close> throwing also for the empty string.
\<close>

definition lucid_currentIdentity :: "Env \<Rightarrow> BuildError + (UTxO \<times> IdentityDatum \<times> string)" where
  "lucid_currentIdentity env =
     (if identityScriptAddress env = [] then Inl ValidatorsNotLoaded
      else
     (case findIdentityUtxo env of
        None \<Rightarrow> Inl IdentityUtxoNotFound
      | Some utxo \<Rightarrow>
          (case plutusData utxo of
             None \<Rightarrow> Inl IdentityUtxoNotFound
           | Some currentDatum \<Rightarrow>
               (case find (\<lambda>u. prefix (identityNftPolicyId env) u) (map unit (amount utxo)) of
                  None \<Rightarrow> Inl IdentityNftNotFound
                | Some u \<Rightarrow>
                    (if drop 56 u = [] then Inl IdentityNftNotFound
                     else Inr (utxo, currentDatum, drop 56 u))))))"

text \<open>
  The continuing output of a Lucid spend carries the NFT alone, and the signer is added
  by address (\<^verbatim>\<open>.addSigner(address)\<close>).
\<close>

definition lucid_spendTx ::
  "Env \<Rightarrow> UTxO \<Rightarrow> string \<Rightarrow> IdentityAction \<Rightarrow> IdentityDatum \<Rightarrow> int option \<Rightarrow> int option \<Rightarrow> Tx" where
  "lucid_spendTx env utxo tokenName action newDatum vFrom vTo =
     \<lparr>txIn = utxo,
      txRedeemer = action,
      txOutAddress = identityScriptAddress env,
      txOutAssets = [\<lparr>unit = identityNftPolicyId env @ tokenName, quantity = ''1''\<rparr>],
      txOutDatum = newDatum,
      txInCollateral = None,
      requiredSignerHash = walletAddress env,
      validFrom = vFrom,
      validTo = vTo\<rparr>"

text \<open>\<^verbatim>\<open>changeOwner(newOwnerPkh)\<close>\<close>

definition lucid_changeOwner :: "Env \<Rightarrow> string \<Rightarrow> BuildError + Tx" where
  "lucid_changeOwner env newOwnerPkh =
     (case lucid_currentIdentity env of
        Inl e \<Rightarrow> Inl e
      | Inr (utxo, currentDatum, tokenName) \<Rightarrow>
          (let newDatum =
                 \<lparr>identity = identity currentDatum, owner = newOwnerPkh,
                  delegates = delegates currentDatum, attributes = attributes currentDatum,
                  nonce = nonce currentDatum + 1\<rparr>
           in Inr (lucid_spendTx env utxo tokenName (ChangeOwner newOwnerPkh) newDatum None None)))"

text \<open>
  \<^verbatim>\<open>addDelegate(delegateType, delegatePkh, validityMs)\<close> reads the clock three times:
  \<open>currentTime\<close> for the expiry (\<^verbatim>\<open>BigInt(Date.now())\<close>, added as a \<^verbatim>\<open>bigint\<close>),
  \<open>now1\<close> in \<^verbatim>\<open>.validFrom(Date.now() - 60_000)\<close> and \<open>now2\<close> in
  \<^verbatim>\<open>.validTo(Date.now() + 600_000)\<close>, both computed on \<^verbatim>\<open>number\<close>s.
\<close>

definition lucid_addDelegate ::
  "Env \<Rightarrow> string \<Rightarrow> string \<Rightarrow> int \<Rightarrow> int \<Rightarrow> int \<Rightarrow> int \<Rightarrow> BuildError + Tx" where
  "lucid_addDelegate env dType delegatePkh validityMs currentTime now1 now2 =
     (case lucid_currentIdentity env of
        Inl e \<Rightarrow> Inl e
      | Inr (utxo, currentDatum, tokenName) \<Rightarrow>
          (let validUntil' = (if validityMs = 0 then 0 else currentTime + validityMs);
               existingDelegates =
                 filter (\<lambda>d. \<not> (delegateAddress d = delegatePkh \<and> delegateType d = dType))
                        (delegates currentDatum);
               newDelegates = existingDelegates @
                 [\<lparr>delegateAddress = delegatePkh, delegateType = dType, validUntil = validUntil'\<rparr>];
               newDatum =
                 \<lparr>identity = identity currentDatum, owner = owner currentDatum,
                  delegates = newDelegates, attributes = attributes currentDatum,
                  nonce = nonce currentDatum + 1\<rparr>
           in Inr (lucid_spendTx env utxo tokenName (AddDelegate dType delegatePkh validityMs)
                     newDatum (Some (js_sub now1 60000)) (Some (js_add now2 600000)))))"

text \<open>\<^verbatim>\<open>revokeDelegate(delegateType, delegatePkh)\<close>\<close>

definition lucid_revokeDelegate :: "Env \<Rightarrow> string \<Rightarrow> string \<Rightarrow> BuildError + Tx" where
  "lucid_revokeDelegate env dType delegatePkh =
     (case lucid_currentIdentity env of
        Inl e \<Rightarrow> Inl e
      | Inr (utxo, currentDatum, tokenName) \<Rightarrow>
          (let newDelegates =
                 filter (\<lambda>d. \<not> (delegateAddress d = delegatePkh \<and> delegateType d = dType))
                        (delegates currentDatum);
               newDatum =
                 \<lparr>identity = identity currentDatum, owner = owner currentDatum,
                  delegates = newDelegates, attributes = attributes currentDatum,
                  nonce = nonce currentDatum + 1\<rparr>
           in Inr (lucid_spendTx env utxo tokenName (RevokeDelegate dType delegatePkh)
                     newDatum None None)))"

text \<open>\<^verbatim>\<open>setAttribute(name, value, validityMs)\<close>, with the same three readings.\<close>

definition lucid_setAttribute ::
  "Env \<Rightarrow> string \<Rightarrow> string \<Rightarrow> int \<Rightarrow> int \<Rightarrow> int \<Rightarrow> int \<Rightarrow> BuildError + Tx" where
  "lucid_setAttribute env name val validityMs currentTime now1 now2 =
     (case lucid_currentIdentity env of
        Inl e \<Rightarrow> Inl e
      | Inr (utxo, currentDatum, tokenName) \<Rightarrow>
          (let validUntil' = (if validityMs = 0 then 0 else currentTime + validityMs);
               existingAttributes = filter (\<lambda>a. attrName a \<noteq> name) (attributes currentDatum);
               newAttributes = existingAttributes @
                 [\<lparr>attrName = name, attrValue = val, attrValidUntil = validUntil'\<rparr>];
               newDatum =
                 \<lparr>identity = identity currentDatum, owner = owner currentDatum,
                  delegates = delegates currentDatum, attributes = newAttributes,
                  nonce = nonce currentDatum + 1\<rparr>
           in Inr (lucid_spendTx env utxo tokenName (SetAttribute name val validityMs)
                     newDatum (Some (js_sub now1 60000)) (Some (js_add now2 600000)))))"

text \<open>\<^verbatim>\<open>revokeAttribute(name, value)\<close>\<close>

definition lucid_revokeAttribute :: "Env \<Rightarrow> string \<Rightarrow> string \<Rightarrow> BuildError + Tx" where
  "lucid_revokeAttribute env name val =
     (case lucid_currentIdentity env of
        Inl e \<Rightarrow> Inl e
      | Inr (utxo, currentDatum, tokenName) \<Rightarrow>
          (let newAttributes =
                 filter (\<lambda>a. \<not> (attrName a = name \<and> attrValue a = val)) (attributes currentDatum);
               newDatum =
                 \<lparr>identity = identity currentDatum, owner = owner currentDatum,
                  delegates = delegates currentDatum, attributes = newAttributes,
                  nonce = nonce currentDatum + 1\<rparr>
           in Inr (lucid_spendTx env utxo tokenName (RevokeAttribute name val)
                     newDatum None None)))"

subsection \<open>The Java datum\<close>

text \<open>
  \<^verbatim>\<open>record Delegate(String delegateAddress, String delegateType, long validUntil)\<close>,
  \<^verbatim>\<open>record Attribute(String name, String value, long validUntil)\<close> and
  \<^verbatim>\<open>record IdentityDatum(identity, owner, delegates, attributes, long nonce)\<close> of the
  Java classes. A \<^verbatim>\<open>long\<close> is a word of 64 bits, read as a signed integer by \<open>sint\<close>.
\<close>

record Delegate_j =
  delegateAddress_j :: string
  delegateType_j :: string
  validUntil_j :: "64 word"

record Attribute_j =
  name_j :: string
  value_j :: string
  attrValidUntil_j :: "64 word"

record IdentityDatum_j =
  identity_j :: string
  owner_j :: string
  delegates_j :: "Delegate_j list"
  attributes_j :: "Attribute_j list"
  nonce_j :: "64 word"

text \<open>
  The five methods that compute the next Record. \<^verbatim>\<open>removeIf\<close> on a copy of the list keeps
  the entries that do not satisfy the test, \<^verbatim>\<open>add\<close> appends.
\<close>

definition withNewOwner :: "IdentityDatum_j \<Rightarrow> string \<Rightarrow> IdentityDatum_j" where
  "withNewOwner datum newOwner =
     \<lparr>identity_j = identity_j datum, owner_j = newOwner, delegates_j = delegates_j datum,
      attributes_j = attributes_j datum, nonce_j = nonce_j datum + 1\<rparr>"

definition withAddedDelegate :: "IdentityDatum_j \<Rightarrow> Delegate_j \<Rightarrow> IdentityDatum_j" where
  "withAddedDelegate datum delegate =
     (let newDelegates =
            filter (\<lambda>d. \<not> (delegateAddress_j d = delegateAddress_j delegate
                           \<and> delegateType_j d = delegateType_j delegate))
                   (delegates_j datum) @ [delegate]
      in \<lparr>identity_j = identity_j datum, owner_j = owner_j datum, delegates_j = newDelegates,
           attributes_j = attributes_j datum, nonce_j = nonce_j datum + 1\<rparr>)"

definition withRevokedDelegate :: "IdentityDatum_j \<Rightarrow> string \<Rightarrow> string \<Rightarrow> IdentityDatum_j" where
  "withRevokedDelegate datum delegateAddress' delegateType' =
     (let newDelegates =
            filter (\<lambda>d. \<not> (delegateAddress_j d = delegateAddress'
                           \<and> delegateType_j d = delegateType'))
                   (delegates_j datum)
      in \<lparr>identity_j = identity_j datum, owner_j = owner_j datum, delegates_j = newDelegates,
           attributes_j = attributes_j datum, nonce_j = nonce_j datum + 1\<rparr>)"

definition withSetAttribute :: "IdentityDatum_j \<Rightarrow> Attribute_j \<Rightarrow> IdentityDatum_j" where
  "withSetAttribute datum attribute =
     (let newAttributes =
            filter (\<lambda>a. \<not> (name_j a = name_j attribute)) (attributes_j datum) @ [attribute]
      in \<lparr>identity_j = identity_j datum, owner_j = owner_j datum, delegates_j = delegates_j datum,
           attributes_j = newAttributes, nonce_j = nonce_j datum + 1\<rparr>)"

definition withRevokedAttribute :: "IdentityDatum_j \<Rightarrow> string \<Rightarrow> string \<Rightarrow> IdentityDatum_j" where
  "withRevokedAttribute datum name' value' =
     (let newAttributes =
            filter (\<lambda>a. \<not> (name_j a = name' \<and> value_j a = value')) (attributes_j datum)
      in \<lparr>identity_j = identity_j datum, owner_j = owner_j datum, delegates_j = delegates_j datum,
           attributes_j = newAttributes, nonce_j = nonce_j datum + 1\<rparr>)"

subsection \<open>The token name of the identity NFT\<close>

text \<open>
  The hexadecimal codec (\<^verbatim>\<open>decodeHex\<close>/\<^verbatim>\<open>encodeHex\<close> of \<^verbatim>\<open>@std/encoding/hex\<close>,
  \<^verbatim>\<open>HexUtil\<close> in Java) and SHA-256 (\<^verbatim>\<open>@noble/hashes\<close>, \<^verbatim>\<open>MessageDigest\<close>)
  are library code and are parameters here. The decoder fails on a string that is not
  hexadecimal.
\<close>

type_synonym byte = "8 word"

record Lib =
  decodeHex :: "string \<Rightarrow> byte list option"
  encodeHex :: "byte list \<Rightarrow> string"
  sha256 :: "byte list \<Rightarrow> byte list"

text \<open>
  \<^verbatim>\<open>new DataView(buf).setUint32(0, outputIndex, false)\<close>: the index is reduced modulo
  \<open>2\<^sup>3\<^sup>2\<close> and stored in four bytes, the most significant one first.
\<close>

definition setUint32 :: "int \<Rightarrow> byte list" where
  "setUint32 v =
     (let u = nat (v mod 2 ^ 32)
      in [of_nat (u div 2 ^ 24 mod 256), of_nat (u div 2 ^ 16 mod 256),
          of_nat (u div 2 ^ 8 mod 256), of_nat (u mod 256)])"

text \<open>\<^verbatim>\<open>computeIdentityTokenName(txHash, outputIndex)\<close> of both TypeScript modules.\<close>

definition computeIdentityTokenName :: "Lib \<Rightarrow> string \<Rightarrow> int \<Rightarrow> string option" where
  "computeIdentityTokenName L txHash outputIndex =
     (case decodeHex L txHash of
        None \<Rightarrow> None
      | Some txHashBytes \<Rightarrow>
          (let outputIndexBytes = setUint32 outputIndex;
               combined = txHashBytes @ outputIndexBytes
           in Some (encodeHex L (sha256 L combined))))"

text \<open>
  Java: \<^verbatim>\<open>buffer.put(txHashBytes); buffer.putInt(outputIndex);\<close> with a 32-bit
  \<^verbatim>\<open>int\<close>; a \<^verbatim>\<open>ByteBuffer\<close> is big-endian.
\<close>

definition putInt :: "32 word \<Rightarrow> byte list" where
  "putInt x = [ucast (drop_bit 24 x), ucast (drop_bit 16 x), ucast (drop_bit 8 x), ucast x]"

definition computeIdentityTokenName_java :: "Lib \<Rightarrow> string \<Rightarrow> 32 word \<Rightarrow> string option" where
  "computeIdentityTokenName_java L txHash outputIndex =
     (case decodeHex L txHash of
        None \<Rightarrow> None
      | Some txHashBytes \<Rightarrow> Some (encodeHex L (sha256 L (txHashBytes @ putInt outputIndex))))"

text \<open>
  The token name in the words of the specification: the SHA-256 hash of the transaction
  hash bytes followed by the output index as a big-endian integer of four bytes.
\<close>

fun big_endian :: "nat \<Rightarrow> nat \<Rightarrow> byte list" where
  "big_endian 0 n = []"
| "big_endian (Suc k) n = big_endian k (n div 256) @ [of_nat (n mod 256)]"

definition tokenName_spec :: "Lib \<Rightarrow> byte list \<Rightarrow> nat \<Rightarrow> string" where
  "tokenName_spec L txHashBytes outputIndex =
     encodeHex L (sha256 L (txHashBytes @ big_endian 4 outputIndex))"

subsection \<open>The read-only projection: \<^verbatim>\<open>buildDIDDocument\<close>\<close>

text \<open>The decimal numeral of an array index, as a template literal prints it.\<close>

fun string_of_nat :: "nat \<Rightarrow> string" where
  "string_of_nat n =
     (if n < 10 then [''0123456789'' ! n]
      else string_of_nat (n div 10) @ [''0123456789'' ! (n mod 10)])"

declare string_of_nat.simps [simp del]

record VerificationMethod =
  vm_id :: string
  vm_type :: string
  vm_controller :: string
  blockchainAccountId :: string

record ServiceEndpoint =
  svc_id :: string
  svc_type :: string
  serviceEndpoint :: string

text \<open>
  The value stored under \<^verbatim>\<open>"cardanoIdentity"\<close>. The object \<^verbatim>\<open>customAttrs\<close> is a list
  of keys with their values: assigning to a key that is present replaces its value.
\<close>

record CardanoIdentity =
  ci_network :: string
  ci_nonce :: int
  ci_attributes :: "(string \<times> string) list"

text \<open>
  The document. \<^verbatim>\<open>keyAgreement\<close> and \<^verbatim>\<open>service\<close> are \<^verbatim>\<open>undefined\<close> (\<open>None\<close>) when
  their list is empty; \<^verbatim>\<open>cardanoIdentity\<close> is set only when there is a custom attribute.
\<close>

record DIDDocument =
  doc_context :: "string list"
  doc_id :: string
  controller :: "string list"
  verificationMethod :: "VerificationMethod list"
  authentication :: "string list"
  assertionMethod :: "string list"
  keyAgreement :: "string list option"
  capabilityInvocation :: "string list"
  capabilityDelegation :: "string list"
  service :: "ServiceEndpoint list option"
  cardanoIdentity :: "CardanoIdentity option"

text \<open>
  The four arrays that the loop over the valid delegates fills:
  \<^verbatim>\<open>verificationMethods\<close>, \<^verbatim>\<open>authentication\<close>, \<^verbatim>\<open>assertionMethod\<close>, \<^verbatim>\<open>keyAgreement\<close>.
\<close>

type_synonym vm_arrays = "VerificationMethod list \<times> string list \<times> string list \<times> string list"

text \<open>The body of \<^verbatim>\<open>validDelegates.forEach((delegate, index) => ...)\<close>.\<close>

definition delegateStep :: "string \<Rightarrow> string \<Rightarrow> vm_arrays \<Rightarrow> nat \<times> Delegate \<Rightarrow> vm_arrays" where
  "delegateStep did network arrays entry =
     (case (arrays, entry) of
        ((verificationMethods, auth, assertion, keyAgr), (index, delegate)) \<Rightarrow>
          (let vmId = did @ ''#delegate-'' @ string_of_nat index;
               vm = \<lparr>vm_id = vmId, vm_type = ''Ed25519VerificationKey2020'', vm_controller = did,
                     blockchainAccountId = ''cardano:'' @ network @ '':'' @ delegateAddress delegate\<rparr>;
               verificationMethods' = verificationMethods @ [vm]
           in if delegateType delegate = ''veriKey''
                then (verificationMethods', auth @ [vmId], assertion, keyAgr)
              else if delegateType delegate = ''sigAuth''
                then (verificationMethods', auth, assertion @ [vmId], keyAgr)
              else if delegateType delegate = ''enc''
                then (verificationMethods', auth, assertion, keyAgr @ [vmId])
              else (verificationMethods', auth, assertion, keyAgr)))"

text \<open>The body of \<^verbatim>\<open>validAttributes.forEach((attr, index) => ...)\<close> that collects services.\<close>

definition serviceStep :: "string \<Rightarrow> ServiceEndpoint list \<Rightarrow> nat \<times> Attribute \<Rightarrow> ServiceEndpoint list" where
  "serviceStep did services entry =
     (case entry of
        (index, attr) \<Rightarrow>
          (if prefix ''did/svc/'' (attrName attr)
           then (let serviceName = drop 8 (attrName attr)
                 in services @ [\<lparr>svc_id = did @ ''#service-'' @ string_of_nat index,
                                  svc_type = serviceName,
                                  serviceEndpoint = attrValue attr\<rparr>])
           else services))"

text \<open>
  \<^verbatim>\<open>customAttrs[attr.name] = attr.value\<close> on a key other than \<^verbatim>\<open>__proto__\<close>. (The list
  keeps the keys in the order of their first assignment; \<^verbatim>\<open>Object.keys\<close> moves keys that
  are array indices to the front, and no statement below depends on the order.)
\<close>

fun assign :: "(string \<times> string) list \<Rightarrow> string \<Rightarrow> string \<Rightarrow> (string \<times> string) list" where
  "assign [] k v = [(k, v)]"
| "assign ((k', v') # obj) k v = (if k' = k then (k, v) # obj else (k', v') # assign obj k v)"

text \<open>
  The body of the second loop over the valid attributes. \<^verbatim>\<open>customAttrs\<close> is an object
  literal, so the key \<^verbatim>\<open>__proto__\<close> is the accessor of \<^verbatim>\<open>Object.prototype\<close>: assigning
  a string to it changes nothing and adds no key.
\<close>

definition customStep :: "(string \<times> string) list \<Rightarrow> Attribute \<Rightarrow> (string \<times> string) list" where
  "customStep customAttrs attr =
     (if \<not> prefix ''did/'' (attrName attr)
      then (if attrName attr = ''__proto__'' then customAttrs
            else assign customAttrs (attrName attr) (attrValue attr))
      else customAttrs)"

text \<open>
  \<^verbatim>\<open>buildDIDDocument(did, datum)\<close>, with the network of the resolver object and the
  reading of the clock as arguments.
\<close>

definition buildDIDDocument :: "string \<Rightarrow> string \<Rightarrow> IdentityDatum \<Rightarrow> int \<Rightarrow> DIDDocument" where
  "buildDIDDocument network did datum currentTime =
     (let validDelegates = filter (\<lambda>d. isDelegateValid d currentTime) (delegates datum);
          validAttributes = filter (\<lambda>a. isAttributeValid a currentTime) (attributes datum);
          ownerVMId = did @ ''#owner'';
          ownerVM = \<lparr>vm_id = ownerVMId, vm_type = ''Ed25519VerificationKey2020'',
                     vm_controller = did,
                     blockchainAccountId = ''cardano:'' @ network @ '':'' @ owner datum\<rparr>;
          arrays = foldl (delegateStep did network)
                     ([ownerVM], [ownerVMId], [ownerVMId], [])
                     (enumerate 0 validDelegates);
          services = foldl (serviceStep did) [] (enumerate 0 validAttributes);
          customAttrs = foldl customStep [] validAttributes
      in (case arrays of
            (verificationMethods, auth, assertion, keyAgr) \<Rightarrow>
              \<lparr>doc_context = [''https://www.w3.org/ns/did/v1'',
                          ''https://w3id.org/security/suites/ed25519-2020/v1''],
               doc_id = did,
               controller = [did],
               verificationMethod = verificationMethods,
               authentication = auth,
               assertionMethod = assertion,
               keyAgreement = (if length keyAgr > 0 then Some keyAgr else None),
               capabilityInvocation = [ownerVMId],
               capabilityDelegation = [ownerVMId],
               service = (if length services > 0 then Some services else None),
               cardanoIdentity =
                 (if length customAttrs > 0
                  then Some \<lparr>ci_network = network, ci_nonce = nonce datum,
                              ci_attributes = customAttrs\<rparr>
                  else None)\<rparr>))"

text \<open>The lists behind the two optional fields.\<close>

definition the_list :: "'a list option \<Rightarrow> 'a list" where
  "the_list x = (case x of None \<Rightarrow> [] | Some xs \<Rightarrow> xs)"

subsection \<open>The on-chain validator\<close>

text \<open>
  Modelled from the spec: the Aiken spend validator \<^verbatim>\<open>validators/identity.ak\<close> is
  part of the repository but its source is not available; only the off-chain builders
  that call it are. The definitions of this subsection follow section 4.2 of the
  specification: the five conditions are tested in the order in which they are listed,
  and the first one that fails gives the error. The specification names no error for a
  wrong field transformation (condition 4); the model reports \<open>SchemaViolation\<close> there.
\<close>

datatype ValidationError =
    AuthorizationError
  | UniquenessViolation
  | SchemaViolation
  | NonceError
  | ValidityRangeError
  | TokenPreservationError

text \<open>
  Modelled from the spec: the facts of the authorization and validity oracle, the signer
  set of the transaction and its declared validity window (a bound is \<open>None\<close> when it is
  missing or unbounded).
\<close>

record AuthFacts =
  signers :: "string list"
  lower_bound :: "int option"
  upper_bound :: "int option"

text \<open>
  Modelled from the spec: the continuing output, whether it re-attaches the identity
  token at the canonical destination, and the Record it carries.
\<close>

record ContinuingOutput =
  reattaches_token :: bool
  new_record :: IdentityDatum

text \<open>Modelled from the spec: the absolute expiry of condition 4.\<close>

definition valid_until :: "int \<Rightarrow> int \<Rightarrow> int" where
  "valid_until lower validity = (if validity = 0 then 0 else lower + validity)"

text \<open>Modelled from the spec: the table of condition 4, with the nonce of condition 3.\<close>

fun transform :: "IdentityDatum \<Rightarrow> IdentityAction \<Rightarrow> int \<Rightarrow> IdentityDatum" where
  "transform D (ChangeOwner new_owner) lower = D\<lparr>owner := new_owner, nonce := nonce D + 1\<rparr>"
| "transform D (AddDelegate t a validity) lower =
     D\<lparr>delegates :=
         filter (\<lambda>d. \<not> (delegateAddress d = a \<and> delegateType d = t)) (delegates D) @
         [\<lparr>delegateAddress = a, delegateType = t, validUntil = valid_until lower validity\<rparr>],
       nonce := nonce D + 1\<rparr>"
| "transform D (RevokeDelegate t a) lower =
     D\<lparr>delegates := filter (\<lambda>d. \<not> (delegateAddress d = a \<and> delegateType d = t)) (delegates D),
       nonce := nonce D + 1\<rparr>"
| "transform D (SetAttribute n v validity) lower =
     D\<lparr>attributes :=
         filter (\<lambda>x. attrName x \<noteq> n) (attributes D) @
         [\<lparr>attrName = n, attrValue = v, attrValidUntil = valid_until lower validity\<rparr>],
       nonce := nonce D + 1\<rparr>"
| "transform D (RevokeAttribute n v) lower =
     D\<lparr>attributes := filter (\<lambda>x. \<not> (attrName x = n \<and> attrValue x = v)) (attributes D),
       nonce := nonce D + 1\<rparr>"

text \<open>Modelled from the spec: condition 5 applies to these actions.\<close>

fun needs_expiry :: "IdentityAction \<Rightarrow> bool" where
  "needs_expiry (AddDelegate t a validity) = (validity \<noteq> 0)"
| "needs_expiry (SetAttribute n v validity) = (validity \<noteq> 0)"
| "needs_expiry _ = False"

text \<open>
  Modelled from the spec: two Records agree when their fields are equal, the delegate and
  attribute collections being compared as unordered sets.
\<close>

definition same_record :: "IdentityDatum \<Rightarrow> IdentityDatum \<Rightarrow> bool" where
  "same_record D1 D2 \<longleftrightarrow>
     identity D1 = identity D2 \<and> owner D1 = owner D2 \<and> nonce D1 = nonce D2 \<and>
     set (delegates D1) = set (delegates D2) \<and> set (attributes D1) = set (attributes D2)"

text \<open>
  Modelled from the spec: the decision of the validator for the current Record \<open>D\<close>, the
  action, the oracle's facts and the continuing output.
\<close>

definition validate ::
  "IdentityDatum \<Rightarrow> IdentityAction \<Rightarrow> AuthFacts \<Rightarrow> ContinuingOutput option \<Rightarrow> ValidationError + IdentityDatum" where
  "validate D A facts out =
     (if owner D \<notin> set (signers facts) then Inl AuthorizationError
      else (case out of
              None \<Rightarrow> Inl TokenPreservationError
            | Some c \<Rightarrow>
                if \<not> reattaches_token c then Inl TokenPreservationError
                else if nonce (new_record c) \<noteq> nonce D + 1 then Inl NonceError
                else if needs_expiry A \<and> (lower_bound facts = None \<or> upper_bound facts = None)
                  then Inl ValidityRangeError
                else if \<not> same_record (new_record c)
                           (transform D A (case lower_bound facts of None \<Rightarrow> 0 | Some l \<Rightarrow> l))
                  then Inl SchemaViolation
                else Inr (new_record c)))"

subsection \<open>Notions used in the statements\<close>

text \<open>
  The uniqueness invariant of a Record: at most one delegate per pair of address and
  type, at most one attribute per name.
\<close>

definition unique_entries :: "IdentityDatum \<Rightarrow> bool" where
  "unique_entries D \<longleftrightarrow>
     distinct (map (\<lambda>d. (delegateAddress d, delegateType d)) (delegates D)) \<and>
     distinct (map attrName (attributes D))"

text \<open>
  Two different inputs on which a function takes the same value: for a hash function,
  a collision.
\<close>

definition collision :: "('a \<Rightarrow> 'b) \<Rightarrow> 'a \<Rightarrow> 'a \<Rightarrow> bool" where
  "collision H x y \<longleftrightarrow> x \<noteq> y \<and> H x = H y"

text \<open>The lower bound of the validity interval that a built transaction declares.\<close>

definition declared_lower :: "BuildError + Tx \<Rightarrow> int option" where
  "declared_lower r = (case r of Inl e \<Rightarrow> None | Inr tx \<Rightarrow> validFrom tx)"

text \<open>
  The entries of a Record that are valid at a given time, as \<^verbatim>\<open>getValidDelegates\<close>,
  \<^verbatim>\<open>getValidAttributes\<close> and the projection filter them.
\<close>

definition getValidDelegates :: "IdentityDatum \<Rightarrow> int \<Rightarrow> Delegate list" where
  "getValidDelegates datum currentTime =
     filter (\<lambda>d. isDelegateValid d currentTime) (delegates datum)"

definition getValidAttributes :: "IdentityDatum \<Rightarrow> int \<Rightarrow> Attribute list" where
  "getValidAttributes datum currentTime =
     filter (\<lambda>a. isAttributeValid a currentTime) (attributes datum)"

text \<open>
  The verification entry that the projection gives to the owner, and the one it gives to
  the delegate at position \<open>index\<close> of the valid delegates.
\<close>

definition ownerEntry :: "string \<Rightarrow> string \<Rightarrow> IdentityDatum \<Rightarrow> VerificationMethod" where
  "ownerEntry network did datum =
     \<lparr>vm_id = did @ ''#owner'', vm_type = ''Ed25519VerificationKey2020'', vm_controller = did,
      blockchainAccountId = ''cardano:'' @ network @ '':'' @ owner datum\<rparr>"

definition delegateEntryId :: "string \<Rightarrow> nat \<Rightarrow> string" where
  "delegateEntryId did index = did @ ''#delegate-'' @ string_of_nat index"

definition delegateEntry :: "string \<Rightarrow> string \<Rightarrow> nat \<Rightarrow> Delegate \<Rightarrow> VerificationMethod" where
  "delegateEntry network did index delegate =
     \<lparr>vm_id = delegateEntryId did index, vm_type = ''Ed25519VerificationKey2020'',
      vm_controller = did,
      blockchainAccountId = ''cardano:'' @ network @ '':'' @ delegateAddress delegate\<rparr>"

text \<open>The service endpoint of the attribute at position \<open>index\<close> of the valid attributes.\<close>

definition serviceId :: "string \<Rightarrow> nat \<Rightarrow> string" where
  "serviceId did index = did @ ''#service-'' @ string_of_nat index"

definition serviceEntry :: "string \<Rightarrow> nat \<Rightarrow> Attribute \<Rightarrow> ServiceEndpoint" where
  "serviceEntry did index attr =
     \<lparr>svc_id = serviceId did index, svc_type = drop 8 (attrName attr),
      serviceEndpoint = attrValue attr\<rparr>"

subsection \<open>Concrete data\<close>

text \<open>A small environment used to run the builders on concrete data.\<close>

definition exampleDatum :: IdentityDatum where
  "exampleDatum =
     \<lparr>identity = ''aa'', owner = ''aa'',
      delegates = [\<lparr>delegateAddress = ''d1'', delegateType = ''sigAuth'', validUntil = 0\<rparr>],
      attributes = [\<lparr>attrName = ''did/svc/hub'', attrValue = ''https://hub'', attrValidUntil = 0\<rparr>],
      nonce = 7\<rparr>"

definition examplePolicyId :: string where
  "examplePolicyId = ''5f1c7a2e5f1c7a2e5f1c7a2e5f1c7a2e5f1c7a2e5f1c7a2e5f1c7a2e''"

definition exampleAssets :: "Asset list" where
  "exampleAssets =
     [\<lparr>unit = ''lovelace'', quantity = ''2000000''\<rparr>,
      \<lparr>unit = ''5f1c7a2e5f1c7a2e5f1c7a2e5f1c7a2e5f1c7a2e5f1c7a2e5f1c7a2e'' @ ''c0de'',
        quantity = ''1''\<rparr>]"

definition exampleCollateral :: UTxO where
  "exampleCollateral =
     \<lparr>amount = [\<lparr>unit = ''lovelace'', quantity = ''5000000''\<rparr>], plutusData = None\<rparr>"

definition exampleUtxo :: UTxO where
  "exampleUtxo = \<lparr>amount = exampleAssets, plutusData = Some exampleDatum\<rparr>"

definition exampleEnv :: Env where
  "exampleEnv =
     \<lparr>identityNftPolicyId = examplePolicyId, identityScriptAddress = ''addr_script'',
      scriptUtxos = [exampleUtxo], walletAddress = ''addr_aa'', walletPkh = ''aa'',
      walletCollateral = [exampleCollateral]\<rparr>"

text \<open>The same environment once the Record on chain is \<open>D\<close>.\<close>

definition exampleEnvWith :: "IdentityDatum \<Rightarrow> Env" where
  "exampleEnvWith D =
     \<lparr>identityNftPolicyId = examplePolicyId, identityScriptAddress = ''addr_script'',
      scriptUtxos = [\<lparr>amount = exampleAssets, plutusData = Some D\<rparr>],
      walletAddress = ''addr_aa'', walletPkh = ''aa'',
      walletCollateral = [exampleCollateral]\<rparr>"

text \<open>A Record with valid and expired entries of every kind, read at time 100.\<close>

definition exampleProfile :: IdentityDatum where
  "exampleProfile =
     \<lparr>identity = ''aa'', owner = ''bb'',
      delegates =
        [\<lparr>delegateAddress = ''d1'', delegateType = ''veriKey'', validUntil = 0\<rparr>,
         \<lparr>delegateAddress = ''d2'', delegateType = ''sigAuth'', validUntil = 50\<rparr>,
         \<lparr>delegateAddress = ''d3'', delegateType = ''enc'', validUntil = 200\<rparr>,
         \<lparr>delegateAddress = ''d4'', delegateType = ''sigAuth'', validUntil = 101\<rparr>],
      attributes =
        [\<lparr>attrName = ''did/pub/key'', attrValue = ''abc'', attrValidUntil = 0\<rparr>,
         \<lparr>attrName = ''did/svc/hub'', attrValue = ''https://hub'', attrValidUntil = 0\<rparr>,
         \<lparr>attrName = ''name'', attrValue = ''Alice'', attrValidUntil = 300\<rparr>,
         \<lparr>attrName = ''did/svc/old'', attrValue = ''https://old'', attrValidUntil = 50\<rparr>,
         \<lparr>attrName = ''email'', attrValue = ''a@b'', attrValidUntil = 100\<rparr>],
      nonce = 4\<rparr>"

text \<open>
  A hexadecimal codec to run the derivation of the token name on concrete data. The hash
  of this library is a stand-in that returns its input, so that the hashed bytes can be
  read off the result.
\<close>

definition hexValue :: "char \<Rightarrow> nat option" where
  "hexValue c =
     (let n = (of_char c :: nat)
      in if 48 \<le> n \<and> n \<le> 57 then Some (n - 48)
         else if 97 \<le> n \<and> n \<le> 102 then Some (n - 87)
         else if 65 \<le> n \<and> n \<le> 70 then Some (n - 55)
         else None)"

fun exampleDecodeHex :: "string \<Rightarrow> byte list option" where
  "exampleDecodeHex [] = Some []"
| "exampleDecodeHex [c] = None"
| "exampleDecodeHex (c # c' # cs) =
     (case (hexValue c, hexValue c', exampleDecodeHex cs) of
        (Some a, Some b, Some bs) \<Rightarrow> Some (of_nat (16 * a + b) # bs)
      | _ \<Rightarrow> None)"

definition exampleEncodeHex :: "byte list \<Rightarrow> string" where
  "exampleEncodeHex bs =
     concat (map (\<lambda>b. [''0123456789abcdef'' ! (unat b div 16),
                        ''0123456789abcdef'' ! (unat b mod 16)]) bs)"

definition exampleLib :: Lib where
  "exampleLib =
     \<lparr>decodeHex = exampleDecodeHex, encodeHex = exampleEncodeHex, sha256 = (\<lambda>bs. bs)\<rparr>"

section \<open>Properties\<close>

lemma exampleEnv_current:
  "currentIdentity exampleEnv = Inr (exampleUtxo, exampleDatum, ''c0de'')"
  by (simp add: currentIdentity_def findIdentityUtxo_def exampleEnv_def exampleUtxo_def
        exampleAssets_def examplePolicyId_def)

lemmas builder_defs =
  changeOwner_def addDelegate_def revokeDelegate_def setAttribute_def revokeAttribute_def
  produced_def spendTx_def Let_def

lemmas lucid_defs =
  lucid_changeOwner_def lucid_addDelegate_def lucid_revokeDelegate_def lucid_setAttribute_def
  lucid_revokeAttribute_def lucid_spendTx_def produced_def declared_lower_def Let_def

lemma exampleEnv_lucid_current:
  "lucid_currentIdentity exampleEnv = Inr (exampleUtxo, exampleDatum, ''c0de'')"
  by (simp add: lucid_currentIdentity_def findIdentityUtxo_def exampleEnv_def exampleUtxo_def
        exampleAssets_def examplePolicyId_def)

subsection \<open>Sums that are exact\<close>

lemma float53_exact: "\<bar>x\<bar> \<le> 2 ^ 53 \<Longrightarrow> float53 x = x"
  by (simp add: float53_def)

lemma js_add_exact: "\<bar>a + b\<bar> \<le> 2 ^ 53 \<Longrightarrow> js_add a b = a + b"
  by (simp add: js_add_def float53_exact)

lemma js_sub_exact: "\<bar>a - b\<bar> \<le> 2 ^ 53 \<Longrightarrow> js_sub a b = a - b"
  by (simp add: js_sub_def float53_exact)





subsection \<open>The nonce of the Record that a builder produces\<close>

lemma exampleEnvWith_current:
  "currentIdentity (exampleEnvWith D) =
     Inr (\<lparr>amount = exampleAssets, plutusData = Some D\<rparr>, D, ''c0de'')"
  by (simp add: currentIdentity_def findIdentityUtxo_def exampleEnvWith_def
        exampleAssets_def examplePolicyId_def)


text \<open>
  Each MeshJS builder writes \<^verbatim>\<open>currentDatum.nonce + 1\<close>, a sum of two \<^verbatim>\<open>number\<close>s, into
  the new Record.
\<close>

lemma mesh_nonce:
  assumes "currentIdentity env = Inr (u, d, tn)"
  shows "map_option nonce (produced (changeOwner env newOwner)) = Some (js_add (nonce d) 1)"
    and "map_option nonce (produced (addDelegate env t a v now)) = Some (js_add (nonce d) 1)"
    and "map_option nonce (produced (revokeDelegate env t a)) = Some (js_add (nonce d) 1)"
    and "map_option nonce (produced (setAttribute env n x v now)) = Some (js_add (nonce d) 1)"
    and "map_option nonce (produced (revokeAttribute env n x)) = Some (js_add (nonce d) 1)"
  using assms by (simp_all add: builder_defs)

text \<open>
  As long as the nonce is below \<open>2\<^sup>5\<^sup>3\<close> the sum is exact: the nonce grows by exactly
  one.
\<close>

lemma mesh_nonce_in_range:
  assumes cur: "currentIdentity env = Inr (u, d, tn)"
    and range: "0 \<le> nonce d" "nonce d < 2 ^ 53"
  shows "map_option nonce (produced (changeOwner env newOwner)) = Some (nonce d + 1)"
    and "map_option nonce (produced (addDelegate env t a v now)) = Some (nonce d + 1)"
    and "map_option nonce (produced (revokeDelegate env t a)) = Some (nonce d + 1)"
    and "map_option nonce (produced (setAttribute env n x v now)) = Some (nonce d + 1)"
    and "map_option nonce (produced (revokeAttribute env n x)) = Some (nonce d + 1)"
proof -
  have "\<bar>nonce d + 1\<bar> \<le> 2 ^ 53" using range by simp
  then have e: "js_add (nonce d) 1 = nonce d + 1" by (rule js_add_exact)
  show "map_option nonce (produced (changeOwner env newOwner)) = Some (nonce d + 1)"
    and "map_option nonce (produced (addDelegate env t a v now)) = Some (nonce d + 1)"
    and "map_option nonce (produced (revokeDelegate env t a)) = Some (nonce d + 1)"
    and "map_option nonce (produced (setAttribute env n x v now)) = Some (nonce d + 1)"
    and "map_option nonce (produced (revokeAttribute env n x)) = Some (nonce d + 1)"
    by (simp_all only: mesh_nonce [OF cur] e)
qed

text \<open>The Lucid builders add \<^verbatim>\<open>1n\<close> to a \<^verbatim>\<open>bigint\<close>: the nonce always grows by one.\<close>

lemma lucid_nonce:
  assumes "lucid_currentIdentity env = Inr (u, d, tn)"
  shows "map_option nonce (produced (lucid_changeOwner env newOwner)) = Some (nonce d + 1)"
    and "map_option nonce (produced (lucid_addDelegate env t a v now now1 now2)) = Some (nonce d + 1)"
    and "map_option nonce (produced (lucid_revokeDelegate env t a)) = Some (nonce d + 1)"
    and "map_option nonce (produced (lucid_setAttribute env n x v now now1 now2)) = Some (nonce d + 1)"
    and "map_option nonce (produced (lucid_revokeAttribute env n x)) = Some (nonce d + 1)"
  using assms by (simp_all add: lucid_defs)

text \<open>
  The Java methods add 1 to a \<^verbatim>\<open>long\<close>: the nonce grows by one below
  \<^verbatim>\<open>Long.MAX_VALUE\<close> and wraps around to \<^verbatim>\<open>Long.MIN_VALUE\<close> there.
\<close>

lemma java_nonce:
  "nonce_j (withNewOwner D newOwner) = nonce_j D + 1"
  "nonce_j (withAddedDelegate D delegate) = nonce_j D + 1"
  "nonce_j (withRevokedDelegate D a t) = nonce_j D + 1"
  "nonce_j (withSetAttribute D attribute) = nonce_j D + 1"
  "nonce_j (withRevokedAttribute D n x) = nonce_j D + 1"
  by (simp_all add: withNewOwner_def withAddedDelegate_def withRevokedDelegate_def
        withSetAttribute_def withRevokedAttribute_def Let_def)

lemma long_increment:
  fixes w :: "64 word"
  assumes "sint w < 2 ^ 63 - 1"
  shows "sint (w + 1) = sint w + 1"
proof -
  have lo: "- (2 ^ 63) \<le> sint w" using sint_ge [of w] by simp
  have "sint (w + 1) = signed_take_bit 63 (sint w + 1)"
    by (simp add: sint_word_ariths)
  also have "\<dots> = sint w + 1"
    using lo assms by (intro signed_take_bit_int_eq_self) simp_all
  finally show ?thesis .
qed

lemma long_wraps: "sint (9223372036854775807 + 1 :: 64 word) = - 9223372036854775808"
  by simp


text \<open>The builders on a Record with a small nonce.\<close>

lemma nonce_example:
  "map_option nonce (produced (changeOwner exampleEnv ''bb'')) = Some 8
   \<and> map_option nonce (produced (addDelegate exampleEnv ''enc'' ''d2'' 5 1000)) = Some 8
   \<and> map_option nonce (produced (revokeDelegate exampleEnv ''enc'' ''d2'')) = Some 8
   \<and> map_option nonce (produced (setAttribute exampleEnv ''k'' ''v'' 5 1000)) = Some 8
   \<and> map_option nonce (produced (revokeAttribute exampleEnv ''k'' ''v'')) = Some 8
   \<and> map_option nonce (produced (lucid_changeOwner exampleEnv ''bb'')) = Some 8
   \<and> nonce_j (withNewOwner \<lparr>identity_j = ''aa'', owner_j = ''aa'', delegates_j = [],
                              attributes_j = [], nonce_j = 7\<rparr> ''bb'') = 8"
  by (simp add: mesh_nonce [OF exampleEnv_current] lucid_nonce [OF exampleEnv_lucid_current]
        java_nonce js_add_exact exampleDatum_def)

text \<open>
  Claim C7. A delegate or an attribute is valid at time \<open>t\<close> exactly when its
  \<open>validUntil\<close> is 0 or is strictly greater than \<open>t\<close>; hence an entry with the absolute
  deadline \<open>e \<noteq> 0\<close> is valid at \<open>e - 1\<close> and is not valid at \<open>e + 1\<close>.
\<close>

theorem validity_boundary:
  "(isDelegateValid d t \<longleftrightarrow> validUntil d = 0 \<or> t < validUntil d)
   \<and> (isAttributeValid a t \<longleftrightarrow> attrValidUntil a = 0 \<or> t < attrValidUntil a)
   \<and> (validUntil d \<noteq> 0 \<longrightarrow>
        isDelegateValid d (validUntil d - 1) \<and> \<not> isDelegateValid d (validUntil d + 1))
   \<and> (attrValidUntil a \<noteq> 0 \<longrightarrow>
        isAttributeValid a (attrValidUntil a - 1) \<and> \<not> isAttributeValid a (attrValidUntil a + 1))"
  by (auto simp add: isDelegateValid_def isAttributeValid_def)

theorem validity_boundary_witness:
  "isDelegateValid \<lparr>delegateAddress = ''d'', delegateType = ''enc'', validUntil = 100\<rparr> 99
   \<and> \<not> isDelegateValid \<lparr>delegateAddress = ''d'', delegateType = ''enc'', validUntil = 100\<rparr> 101
   \<and> isAttributeValid \<lparr>attrName = ''n'', attrValue = ''v'', attrValidUntil = 100\<rparr> 99
   \<and> \<not> isAttributeValid \<lparr>attrName = ''n'', attrValue = ''v'', attrValidUntil = 100\<rparr> 101"
  using validity_boundary [of "\<lparr>delegateAddress = ''d'', delegateType = ''enc'', validUntil = 100\<rparr>" 0
      "\<lparr>attrName = ''n'', attrValue = ''v'', attrValidUntil = 100\<rparr>"]
  by simp

subsection \<open>What each builder produces\<close>

lemma produced_changeOwner:
  "currentIdentity env = Inr (u, D, tn) \<Longrightarrow>
   produced (changeOwner env newOwner) = Some (D\<lparr>owner := newOwner, nonce := js_add (nonce D) 1\<rparr>)"
  by (simp add: builder_defs)

lemma produced_addDelegate:
  "currentIdentity env = Inr (u, D, tn) \<Longrightarrow>
   produced (addDelegate env t a v now) =
     Some (D\<lparr>delegates :=
               filter (\<lambda>d. \<not> (delegateAddress d = a \<and> delegateType d = t)) (delegates D) @
               [\<lparr>delegateAddress = a, delegateType = t,
                 validUntil = (if v = 0 then 0 else js_add now v)\<rparr>],
             nonce := js_add (nonce D) 1\<rparr>)"
  by (simp add: builder_defs)

lemma produced_revokeDelegate:
  "currentIdentity env = Inr (u, D, tn) \<Longrightarrow>
   produced (revokeDelegate env t a) =
     Some (D\<lparr>delegates :=
               filter (\<lambda>d. \<not> (delegateAddress d = a \<and> delegateType d = t)) (delegates D),
             nonce := js_add (nonce D) 1\<rparr>)"
  by (simp add: builder_defs)

lemma produced_setAttribute:
  "currentIdentity env = Inr (u, D, tn) \<Longrightarrow>
   produced (setAttribute env n x v now) =
     Some (D\<lparr>attributes :=
               filter (\<lambda>b. attrName b \<noteq> n) (attributes D) @
               [\<lparr>attrName = n, attrValue = x,
                 attrValidUntil = (if v = 0 then 0 else js_add now v)\<rparr>],
             nonce := js_add (nonce D) 1\<rparr>)"
  by (simp add: builder_defs)

lemma produced_revokeAttribute:
  "currentIdentity env = Inr (u, D, tn) \<Longrightarrow>
   produced (revokeAttribute env n x) =
     Some (D\<lparr>attributes :=
               filter (\<lambda>b. \<not> (attrName b = n \<and> attrValue b = x)) (attributes D),
             nonce := js_add (nonce D) 1\<rparr>)"
  by (simp add: builder_defs)

lemma distinct_map_filter_key:
  "distinct (map f xs) \<Longrightarrow> distinct (map f (filter P xs))"
  by (induction xs) auto

lemma distinct_replace:
  "distinct (map f xs) \<Longrightarrow> f y = k \<Longrightarrow> distinct (map f (filter (\<lambda>x. f x \<noteq> k) xs @ [y]))"
  by (induction xs) auto

lemma delegate_key_neq:
  "(\<lambda>d. \<not> (delegateAddress d = a \<and> delegateType d = t)) =
   (\<lambda>d. (delegateAddress d, delegateType d) \<noteq> (a, t))"
  by auto

text \<open>
  Claim C4. Every builder preserves the uniqueness invariant: when the Record on chain
  has at most one delegate per pair of address and type and at most one attribute per
  name, so has the Record that the builder produces. After \<open>addDelegate\<close> the only entry
  for the pair is the new one, and after \<open>setAttribute\<close> the only entry for the name is
  the new one: an entry that was present is replaced, not duplicated.
\<close>

theorem uniqueness_preserved:
  assumes cur: "currentIdentity env = Inr (u, D, tn)" and inv: "unique_entries D"
  shows "(\<exists>D'. produced (changeOwner env newOwner) = Some D' \<and> unique_entries D')
       \<and> (\<exists>D'. produced (addDelegate env t a v now) = Some D' \<and> unique_entries D'
             \<and> filter (\<lambda>d. delegateAddress d = a \<and> delegateType d = t) (delegates D') =
                 [\<lparr>delegateAddress = a, delegateType = t,
                   validUntil = (if v = 0 then 0 else js_add now v)\<rparr>])
       \<and> (\<exists>D'. produced (revokeDelegate env t a) = Some D' \<and> unique_entries D')
       \<and> (\<exists>D'. produced (setAttribute env n x v now) = Some D' \<and> unique_entries D'
             \<and> filter (\<lambda>b. attrName b = n) (attributes D') =
                 [\<lparr>attrName = n, attrValue = x,
                   attrValidUntil = (if v = 0 then 0 else js_add now v)\<rparr>])
       \<and> (\<exists>D'. produced (revokeAttribute env n x) = Some D' \<and> unique_entries D')"
proof -
  let ?key = "\<lambda>d. (delegateAddress d, delegateType d)"
  have dk: "distinct (map ?key (delegates D))" and ak: "distinct (map attrName (attributes D))"
    using inv by (simp_all add: unique_entries_def)
  have c1: "\<exists>D'. produced (changeOwner env newOwner) = Some D' \<and> unique_entries D'"
    using inv by (simp add: produced_changeOwner [OF cur] unique_entries_def)
  have c2: "\<exists>D'. produced (addDelegate env t a v now) = Some D' \<and> unique_entries D'
             \<and> filter (\<lambda>d. delegateAddress d = a \<and> delegateType d = t) (delegates D') =
                 [\<lparr>delegateAddress = a, delegateType = t,
                   validUntil = (if v = 0 then 0 else js_add now v)\<rparr>]"
    using ak distinct_replace [OF dk, of "\<lparr>delegateAddress = a, delegateType = t,
                   validUntil = (if v = 0 then 0 else js_add now v)\<rparr>" "(a, t)"]
    by (simp add: produced_addDelegate [OF cur] unique_entries_def delegate_key_neq
          filter_empty_conv)
  have c3: "\<exists>D'. produced (revokeDelegate env t a) = Some D' \<and> unique_entries D'"
    using ak distinct_map_filter_key [OF dk]
    by (simp add: produced_revokeDelegate [OF cur] unique_entries_def)
  have c4: "\<exists>D'. produced (setAttribute env n x v now) = Some D' \<and> unique_entries D'
             \<and> filter (\<lambda>b. attrName b = n) (attributes D') =
                 [\<lparr>attrName = n, attrValue = x,
                   attrValidUntil = (if v = 0 then 0 else js_add now v)\<rparr>]"
    using dk distinct_replace [OF ak, of "\<lparr>attrName = n, attrValue = x,
                   attrValidUntil = (if v = 0 then 0 else js_add now v)\<rparr>" n]
    by (simp add: produced_setAttribute [OF cur] unique_entries_def filter_empty_conv)
  have c5: "\<exists>D'. produced (revokeAttribute env n x) = Some D' \<and> unique_entries D'"
    using dk distinct_map_filter_key [OF ak]
    by (simp add: produced_revokeAttribute [OF cur] unique_entries_def)
  from c1 c2 c3 c4 c5 show ?thesis by blast
qed

lemma exampleDatum_unique: "unique_entries exampleDatum"
  by (simp add: unique_entries_def exampleDatum_def)

theorem uniqueness_preserved_witness:
  "currentIdentity exampleEnv = Inr (exampleUtxo, exampleDatum, ''c0de'') \<and> unique_entries exampleDatum
   \<and> (\<exists>D'. produced (addDelegate exampleEnv ''sigAuth'' ''d1'' 5 1000) = Some D'
          \<and> unique_entries D'
          \<and> filter (\<lambda>d. delegateAddress d = ''d1'' \<and> delegateType d = ''sigAuth'') (delegates D') =
              [\<lparr>delegateAddress = ''d1'', delegateType = ''sigAuth'', validUntil = 1005\<rparr>])
   \<and> (\<exists>D'. produced (setAttribute exampleEnv ''did/svc/hub'' ''https://new'' 5 1000) = Some D'
          \<and> unique_entries D'
          \<and> filter (\<lambda>b. attrName b = ''did/svc/hub'') (attributes D') =
              [\<lparr>attrName = ''did/svc/hub'', attrValue = ''https://new'', attrValidUntil = 1005\<rparr>])"
proof -
  note w = uniqueness_preserved [OF exampleEnv_current exampleDatum_unique,
      of "''bb''" "''sigAuth''" "''d1''" 5 1000 "''did/svc/hub''" "''https://new''"]
  have five: "(if (5::int) = 0 then 0 else js_add 1000 5) = 1005" by (simp add: js_add_exact)
  show ?thesis
    using w exampleEnv_current exampleDatum_unique unfolding five by blast
qed

text \<open>
  Claim C8. \<open>revokeAttribute\<close> removes exactly the attributes whose name and value both
  equal the requested ones, so an entry that differs in its name or in its value stays.
  When no attribute matches, the Record produced is the Record on chain with the nonce
  incremented; the same holds for \<open>revokeDelegate\<close> when no delegate has the requested
  address and type.
\<close>

theorem revocation_exact_and_idempotent:
  assumes cur: "currentIdentity env = Inr (u, D, tn)"
  shows "(\<exists>D'. produced (revokeAttribute env n x) = Some D'
            \<and> (\<forall>b \<in> set (attributes D).
                  b \<notin> set (attributes D') \<longleftrightarrow> attrName b = n \<and> attrValue b = x)
            \<and> attributes D' = filter (\<lambda>b. \<not> (attrName b = n \<and> attrValue b = x)) (attributes D)
            \<and> ((\<forall>b \<in> set (attributes D). \<not> (attrName b = n \<and> attrValue b = x)) \<longrightarrow>
                  D' = D\<lparr>nonce := js_add (nonce D) 1\<rparr>))
       \<and> (\<exists>D'. produced (revokeDelegate env t a) = Some D'
            \<and> ((\<forall>d \<in> set (delegates D). \<not> (delegateAddress d = a \<and> delegateType d = t)) \<longrightarrow>
                  D' = D\<lparr>nonce := js_add (nonce D) 1\<rparr>))"
proof -
  have f1: "(\<forall>b \<in> set (attributes D). \<not> (attrName b = n \<and> attrValue b = x)) \<Longrightarrow>
        filter (\<lambda>b. \<not> (attrName b = n \<and> attrValue b = x)) (attributes D) = attributes D"
    by (simp add: filter_id_conv)
  have f2: "(\<forall>d \<in> set (delegates D). \<not> (delegateAddress d = a \<and> delegateType d = t)) \<Longrightarrow>
        filter (\<lambda>d. \<not> (delegateAddress d = a \<and> delegateType d = t)) (delegates D) = delegates D"
    by (simp add: filter_id_conv)
  have a: "\<exists>D'. produced (revokeAttribute env n x) = Some D'
            \<and> (\<forall>b \<in> set (attributes D).
                  b \<notin> set (attributes D') \<longleftrightarrow> attrName b = n \<and> attrValue b = x)
            \<and> attributes D' = filter (\<lambda>b. \<not> (attrName b = n \<and> attrValue b = x)) (attributes D)
            \<and> ((\<forall>b \<in> set (attributes D). \<not> (attrName b = n \<and> attrValue b = x)) \<longrightarrow>
                  D' = D\<lparr>nonce := js_add (nonce D) 1\<rparr>)"
    using f1 by (auto simp add: produced_revokeAttribute [OF cur])
  have d: "\<exists>D'. produced (revokeDelegate env t a) = Some D'
            \<and> ((\<forall>d \<in> set (delegates D). \<not> (delegateAddress d = a \<and> delegateType d = t)) \<longrightarrow>
                  D' = D\<lparr>nonce := js_add (nonce D) 1\<rparr>)"
    using f2 by (auto simp add: produced_revokeDelegate [OF cur])
  from a d show ?thesis by blast
qed

theorem revocation_exact_and_idempotent_witness:
  "currentIdentity exampleEnv = Inr (exampleUtxo, exampleDatum, ''c0de'')
   \<and> produced (revokeAttribute exampleEnv ''did/svc/hub'' ''https://other'') =
       Some (exampleDatum\<lparr>nonce := 8\<rparr>)
   \<and> produced (revokeDelegate exampleEnv ''enc'' ''d1'') = Some (exampleDatum\<lparr>nonce := 8\<rparr>)"
proof -
  note w = revocation_exact_and_idempotent [OF exampleEnv_current,
      of "''did/svc/hub''" "''https://other''" "''enc''" "''d1''"]
  have n: "js_add (nonce exampleDatum) 1 = 8" by (simp add: exampleDatum_def js_add_exact)
  have na: "\<forall>b \<in> set (attributes exampleDatum).
              \<not> (attrName b = ''did/svc/hub'' \<and> attrValue b = ''https://other'')"
    by (simp add: exampleDatum_def)
  have nd: "\<forall>d \<in> set (delegates exampleDatum).
              \<not> (delegateAddress d = ''d1'' \<and> delegateType d = ''enc'')"
    by (simp add: exampleDatum_def)
  show ?thesis using w na nd exampleEnv_current unfolding n by auto
qed

text \<open>
  Claim C6, as stated, fails when the pair of address and type is already present:
  \<open>addDelegate\<close> replaces the old entry and \<open>revokeDelegate\<close> then removes the new one,
  so the old entry is lost. The Record \<open>exampleDatum\<close> holds the delegate
  \<open>(d1, sigAuth)\<close>; after adding and revoking \<open>(sigAuth, d1)\<close> the delegate list is empty.
\<close>

theorem add_then_revoke_counterexample:
  "produced (addDelegate exampleEnv ''sigAuth'' ''d1'' 5 1000) =
     Some (exampleDatum\<lparr>delegates :=
             [\<lparr>delegateAddress = ''d1'', delegateType = ''sigAuth'', validUntil = 1005\<rparr>],
           nonce := 8\<rparr>)
   \<and> produced (revokeDelegate
        (exampleEnvWith (exampleDatum\<lparr>delegates :=
             [\<lparr>delegateAddress = ''d1'', delegateType = ''sigAuth'', validUntil = 1005\<rparr>],
           nonce := 8\<rparr>)) ''sigAuth'' ''d1'') =
     Some (exampleDatum\<lparr>delegates := [], nonce := 9\<rparr>)
   \<and> delegates exampleDatum =
       [\<lparr>delegateAddress = ''d1'', delegateType = ''sigAuth'', validUntil = 0\<rparr>]
   \<and> set (delegates (exampleDatum\<lparr>delegates := [], nonce := 9\<rparr>)) \<noteq> set (delegates exampleDatum)"
  by (simp add: produced_addDelegate [OF exampleEnv_current]
        produced_revokeDelegate [OF exampleEnvWith_current] exampleDatum_def js_add_exact)

text \<open>
  Claim C6, amended. Adding \<open>(t, a, v)\<close> and then revoking \<open>(t, a)\<close> leaves the delegates
  of the Record before the addition without the entries for \<open>(a, t)\<close>; when the pair was
  not present before the addition, the delegate list is the one before the addition.
  Here \<open>env'\<close> is any environment in which the Record on chain is the one that
  \<open>addDelegate\<close> produced.
\<close>

theorem add_then_revoke:
  assumes cur: "currentIdentity env = Inr (u, D, tn)"
    and add: "produced (addDelegate env t a v now) = Some D1"
    and cur': "currentIdentity env' = Inr (u', D1, tn')"
    and rev: "produced (revokeDelegate env' t a) = Some D2"
  shows "delegates D2 =
           filter (\<lambda>d. \<not> (delegateAddress d = a \<and> delegateType d = t)) (delegates D)
       \<and> ((\<forall>d \<in> set (delegates D). \<not> (delegateAddress d = a \<and> delegateType d = t)) \<longrightarrow>
            delegates D2 = delegates D)"
proof -
  have D1: "D1 = D\<lparr>delegates :=
               filter (\<lambda>d. \<not> (delegateAddress d = a \<and> delegateType d = t)) (delegates D) @
               [\<lparr>delegateAddress = a, delegateType = t,
                 validUntil = (if v = 0 then 0 else js_add now v)\<rparr>],
             nonce := js_add (nonce D) 1\<rparr>"
    using add by (simp add: produced_addDelegate [OF cur])
  have D2: "D2 = D1\<lparr>delegates :=
               filter (\<lambda>d. \<not> (delegateAddress d = a \<and> delegateType d = t)) (delegates D1),
             nonce := js_add (nonce D1) 1\<rparr>"
    using rev by (simp add: produced_revokeDelegate [OF cur'])
  have eq: "delegates D2 =
           filter (\<lambda>d. \<not> (delegateAddress d = a \<and> delegateType d = t)) (delegates D)"
    by (simp add: D2 D1)
  moreover have "(\<forall>d \<in> set (delegates D). \<not> (delegateAddress d = a \<and> delegateType d = t)) \<Longrightarrow>
        filter (\<lambda>d. \<not> (delegateAddress d = a \<and> delegateType d = t)) (delegates D) = delegates D"
    by (simp add: filter_id_conv)
  ultimately show ?thesis by simp
qed

theorem add_then_revoke_witness:
  "produced (addDelegate exampleEnv ''enc'' ''d2'' 5 1000) =
     Some (exampleDatum\<lparr>delegates := delegates exampleDatum @
              [\<lparr>delegateAddress = ''d2'', delegateType = ''enc'', validUntil = 1005\<rparr>], nonce := 8\<rparr>)
   \<and> produced (revokeDelegate
        (exampleEnvWith (exampleDatum\<lparr>delegates := delegates exampleDatum @
              [\<lparr>delegateAddress = ''d2'', delegateType = ''enc'', validUntil = 1005\<rparr>], nonce := 8\<rparr>))
        ''enc'' ''d2'') = Some (exampleDatum\<lparr>nonce := 9\<rparr>)
   \<and> delegates (exampleDatum\<lparr>nonce := 9\<rparr>) = delegates exampleDatum"
proof -
  let ?D1 = "exampleDatum\<lparr>delegates := delegates exampleDatum @
              [\<lparr>delegateAddress = ''d2'', delegateType = ''enc'', validUntil = 1005\<rparr>], nonce := 8\<rparr>"
  have a: "produced (addDelegate exampleEnv ''enc'' ''d2'' 5 1000) = Some ?D1"
    by (simp add: produced_addDelegate [OF exampleEnv_current] exampleDatum_def js_add_exact)
  have r: "produced (revokeDelegate (exampleEnvWith ?D1) ''enc'' ''d2'') =
             Some (exampleDatum\<lparr>nonce := 9\<rparr>)"
    by (simp add: produced_revokeDelegate [OF exampleEnvWith_current] exampleDatum_def js_add_exact)
  have absent: "\<forall>d \<in> set (delegates exampleDatum).
                  \<not> (delegateAddress d = ''d2'' \<and> delegateType d = ''enc'')"
    by (simp add: exampleDatum_def)
  from add_then_revoke [OF exampleEnv_current a exampleEnvWith_current r] absent a r
  show ?thesis by blast
qed

lemma produced_lucid_addDelegate:
  "lucid_currentIdentity env = Inr (u, D, tn) \<Longrightarrow>
   produced (lucid_addDelegate env t a v currentTime now1 now2) =
     Some (D\<lparr>delegates :=
               filter (\<lambda>d. \<not> (delegateAddress d = a \<and> delegateType d = t)) (delegates D) @
               [\<lparr>delegateAddress = a, delegateType = t,
                 validUntil = (if v = 0 then 0 else currentTime + v)\<rparr>],
             nonce := nonce D + 1\<rparr>)"
  by (simp add: lucid_defs)

lemma produced_lucid_setAttribute:
  "lucid_currentIdentity env = Inr (u, D, tn) \<Longrightarrow>
   produced (lucid_setAttribute env n x v currentTime now1 now2) =
     Some (D\<lparr>attributes :=
               filter (\<lambda>b. attrName b \<noteq> n) (attributes D) @
               [\<lparr>attrName = n, attrValue = x,
                 attrValidUntil = (if v = 0 then 0 else currentTime + v)\<rparr>],
             nonce := nonce D + 1\<rparr>)"
  by (simp add: lucid_defs)

lemma declared_lower_mesh:
  "currentIdentity env = Inr (u, D, tn) \<Longrightarrow>
   declared_lower (addDelegate env t a v now) = Some (js_sub now 60000) \<and>
   declared_lower (setAttribute env n x v now) = Some (js_sub now 60000)"
  by (simp add: builder_defs declared_lower_def)

lemma declared_lower_lucid:
  "lucid_currentIdentity env = Inr (u, D, tn) \<Longrightarrow>
   declared_lower (lucid_addDelegate env t a v currentTime now1 now2) = Some (js_sub now1 60000) \<and>
   declared_lower (lucid_setAttribute env n x v currentTime now1 now2) = Some (js_sub now1 60000)"
  by (simp add: lucid_defs)

subsection \<open>The expiry that the builders store\<close>

text \<open>
  \<open>addDelegate\<close> and \<open>setAttribute\<close> of the MeshJS module store, in the one entry for the
  key, the expiry 0 when the validity is 0 and otherwise the reading of the clock plus the
  validity; they declare the lower bound of the validity interval as that same reading
  minus 60 000.
\<close>

lemma mesh_expiry_from_clock:
  assumes cur: "currentIdentity env = Inr (u, D, tn)"
  shows "\<exists>D'. produced (addDelegate env t a v now) = Some D'
            \<and> filter (\<lambda>d. delegateAddress d = a \<and> delegateType d = t) (delegates D') =
                [\<lparr>delegateAddress = a, delegateType = t,
                  validUntil = (if v = 0 then 0 else js_add now v)\<rparr>]
            \<and> declared_lower (addDelegate env t a v now) = Some (js_sub now 60000)"
    and "\<exists>D'. produced (setAttribute env n x v now) = Some D'
            \<and> filter (\<lambda>b. attrName b = n) (attributes D') =
                [\<lparr>attrName = n, attrValue = x,
                  attrValidUntil = (if v = 0 then 0 else js_add now v)\<rparr>]
            \<and> declared_lower (setAttribute env n x v now) = Some (js_sub now 60000)"
  using declared_lower_mesh [OF cur]
  by (simp_all add: produced_addDelegate [OF cur] produced_setAttribute [OF cur] filter_empty_conv)

text \<open>
  The Lucid builders compute the expiry in the same way from their first reading \<open>now\<close>
  and declare the lower bound from a second reading, \<open>now1\<close> minus 60 000.
\<close>

lemma lucid_expiry_from_clock:
  assumes lc: "lucid_currentIdentity env = Inr (u, D, tn)"
  shows "\<exists>D'. produced (lucid_addDelegate env t a v now now1 now2) = Some D'
            \<and> filter (\<lambda>d. delegateAddress d = a \<and> delegateType d = t) (delegates D') =
                [\<lparr>delegateAddress = a, delegateType = t,
                  validUntil = (if v = 0 then 0 else now + v)\<rparr>]
            \<and> declared_lower (lucid_addDelegate env t a v now now1 now2) = Some (js_sub now1 60000)"
    and "\<exists>D'. produced (lucid_setAttribute env n x v now now1 now2) = Some D'
            \<and> filter (\<lambda>b. attrName b = n) (attributes D') =
                [\<lparr>attrName = n, attrValue = x,
                  attrValidUntil = (if v = 0 then 0 else now + v)\<rparr>]
            \<and> declared_lower (lucid_setAttribute env n x v now now1 now2) = Some (js_sub now1 60000)"
  using declared_lower_lucid [OF lc]
  by (simp_all add: produced_lucid_addDelegate [OF lc] produced_lucid_setAttribute [OF lc]
        filter_empty_conv)

text \<open>
  Claim C5 on the builders, with the clock at 1 700 000 000 000 and a validity of 5 ms.
  \<open>addDelegate\<close> declares the lower bound 1 699 999 940 000 and stores the expiry
  1 700 000 000 005; the lower bound plus the validity is 1 699 999 940 005. The same
  holds for \<open>setAttribute\<close>, and for the Lucid builder when its readings of the clock
  coincide.
\<close>

theorem expiry_not_from_declared_window:
  "declared_lower (addDelegate exampleEnv ''enc'' ''d2'' 5 1700000000000) = Some 1699999940000
   \<and> map_option delegates (produced (addDelegate exampleEnv ''enc'' ''d2'' 5 1700000000000)) =
       Some [\<lparr>delegateAddress = ''d1'', delegateType = ''sigAuth'', validUntil = 0\<rparr>,
             \<lparr>delegateAddress = ''d2'', delegateType = ''enc'', validUntil = 1700000000005\<rparr>]
   \<and> declared_lower (setAttribute exampleEnv ''k'' ''v'' 5 1700000000000) = Some 1699999940000
   \<and> map_option attributes (produced (setAttribute exampleEnv ''k'' ''v'' 5 1700000000000)) =
       Some [\<lparr>attrName = ''did/svc/hub'', attrValue = ''https://hub'', attrValidUntil = 0\<rparr>,
             \<lparr>attrName = ''k'', attrValue = ''v'', attrValidUntil = 1700000000005\<rparr>]
   \<and> declared_lower (lucid_addDelegate exampleEnv ''enc'' ''d2'' 5
        1700000000000 1700000000000 1700000000000) = Some 1699999940000
   \<and> map_option delegates (produced (lucid_addDelegate exampleEnv ''enc'' ''d2'' 5
        1700000000000 1700000000000 1700000000000)) =
       Some [\<lparr>delegateAddress = ''d1'', delegateType = ''sigAuth'', validUntil = 0\<rparr>,
             \<lparr>delegateAddress = ''d2'', delegateType = ''enc'', validUntil = 1700000000005\<rparr>]
   \<and> (1700000000005 :: int) \<noteq> 1699999940000 + 5"
  using declared_lower_mesh [OF exampleEnv_current, of "''enc''" "''d2''" 5 1700000000000 "''k''" "''v''"]
    declared_lower_lucid [OF exampleEnv_lucid_current, of "''enc''" "''d2''" 5 1700000000000
      1700000000000 1700000000000]
  by (simp add: produced_addDelegate [OF exampleEnv_current]
        produced_setAttribute [OF exampleEnv_current]
        produced_lucid_addDelegate [OF exampleEnv_lucid_current]
        exampleDatum_def js_add_exact js_sub_exact)

subsection \<open>The expiry that the validator expects\<close>

text \<open>
  The validator of the specification has no clock: it computes the expiry from the lower
  bound of the declared validity interval. Every \<open>AddDelegate\<close> and every \<open>SetAttribute\<close>
  that it accepts leaves, for the key, exactly the entry whose expiry is \<open>valid_until\<close> of
  that lower bound and the validity.
\<close>

lemma validator_expiry_from_window:
  assumes acc: "validate D (AddDelegate t a v) facts (Some c) = Inr D'"
    and low: "lower_bound facts = Some l"
  shows "{d \<in> set (delegates D'). delegateAddress d = a \<and> delegateType d = t} =
           {\<lparr>delegateAddress = a, delegateType = t, validUntil = valid_until l v\<rparr>}"
proof -
  from acc have D': "D' = new_record c"
    and same: "same_record (new_record c) (transform D (AddDelegate t a v) l)"
    by (simp_all add: validate_def low split: if_splits)
  from same have "set (delegates D') =
      set (filter (\<lambda>d. \<not> (delegateAddress d = a \<and> delegateType d = t)) (delegates D)) \<union>
      {\<lparr>delegateAddress = a, delegateType = t, validUntil = valid_until l v\<rparr>}"
    by (simp add: same_record_def D')
  then show ?thesis by auto
qed

lemma validator_attribute_expiry_from_window:
  assumes acc: "validate D (SetAttribute n x v) facts (Some c) = Inr D'"
    and low: "lower_bound facts = Some l"
  shows "{b \<in> set (attributes D'). attrName b = n} =
           {\<lparr>attrName = n, attrValue = x, attrValidUntil = valid_until l v\<rparr>}"
proof -
  from acc have D': "D' = new_record c"
    and same: "same_record (new_record c) (transform D (SetAttribute n x v) l)"
    by (simp_all add: validate_def low split: if_splits)
  from same have "set (attributes D') =
      set (filter (\<lambda>b. attrName b \<noteq> n) (attributes D)) \<union>
      {\<lparr>attrName = n, attrValue = x, attrValidUntil = valid_until l v\<rparr>}"
    by (simp add: same_record_def D')
  then show ?thesis by auto
qed

text \<open>
  Hence the validator of the specification does not accept what the MeshJS
  \<open>addDelegate\<close> builds with a validity other than 0, even when the wallet is the owner:
  the Record of the continuing output has the expiry of the clock, the validator expects
  the expiry of the declared lower bound, 60 000 ms earlier. (The sums are taken in the
  range where a \<^verbatim>\<open>number\<close> is exact.)
\<close>

lemma built_expiry_rejected:
  assumes cur: "currentIdentity env = Inr (u, D, tn)"
    and wallet: "walletPkh env = owner D"
    and v: "v \<noteq> 0"
    and exact: "\<bar>now + v\<bar> \<le> 2 ^ 53" "\<bar>now - 60000\<bar> \<le> 2 ^ 53" "\<bar>now + 600000\<bar> \<le> 2 ^ 53"
      "\<bar>nonce D + 1\<bar> \<le> 2 ^ 53"
    and built: "addDelegate env t a v now = Inr tx"
  shows "validate D (txRedeemer tx)
           \<lparr>signers = [requiredSignerHash tx], lower_bound = validFrom tx, upper_bound = validTo tx\<rparr>
           (Some \<lparr>reattaches_token = True, new_record = txOutDatum tx\<rparr>) = Inl SchemaViolation"
proof -
  let ?rest = "filter (\<lambda>d. \<not> (delegateAddress d = a \<and> delegateType d = t)) (delegates D)"
  let ?built = "\<lparr>delegateAddress = a, delegateType = t, validUntil = now + v\<rparr>"
  let ?expected = "\<lparr>delegateAddress = a, delegateType = t, validUntil = now - 60000 + v\<rparr>"
  from built cur have tx: "tx = spendTx env u tn (AddDelegate t a v)
      (D\<lparr>delegates := ?rest @ [?built], nonce := nonce D + 1\<rparr>)
      (Some (now - 60000)) (Some (now + 600000))"
    using v by (simp add: addDelegate_def Let_def js_add_exact [OF exact(1)]
        js_sub_exact [OF exact(2)] js_add_exact [OF exact(3)] js_add_exact [OF exact(4)])
  have neq: "set (?rest @ [?built]) \<noteq> set (?rest @ [?expected])"
  proof
    assume e: "set (?rest @ [?built]) = set (?rest @ [?expected])"
    have "?built \<in> set (?rest @ [?built])" by simp
    then have "?built \<in> set (?rest @ [?expected])" by (simp only: e)
    then show False by simp
  qed
  have "\<not> same_record (D\<lparr>delegates := ?rest @ [?built], nonce := nonce D + 1\<rparr>)
            (transform D (AddDelegate t a v) (now - 60000))"
    using neq v by (simp add: same_record_def valid_until_def)
  then show ?thesis
    using v wallet by (simp add: tx spendTx_def validate_def)
qed

lemma built_expiry_rejected_example:
  "validate exampleDatum (AddDelegate ''enc'' ''d2'' 5)
     \<lparr>signers = [''aa''], lower_bound = Some 1699999940000, upper_bound = Some 1700000600000\<rparr>
     (Some \<lparr>reattaches_token = True,
            new_record = exampleDatum\<lparr>delegates :=
              [\<lparr>delegateAddress = ''d1'', delegateType = ''sigAuth'', validUntil = 0\<rparr>,
               \<lparr>delegateAddress = ''d2'', delegateType = ''enc'', validUntil = 1700000000005\<rparr>],
              nonce := 8\<rparr>\<rparr>)
   = Inl SchemaViolation"
  by (simp add: validate_def same_record_def valid_until_def exampleDatum_def doubleton_eq_iff)

text \<open>
  Claim C2. For every action, the validator rejects with \<open>AuthorizationError\<close> a
  transition whose signer set does not contain the owner of the current Record, whoever
  else signed: a delegate, valid or not, does not authorize a transition.
\<close>

theorem unauthorized_rejected:
  assumes "owner D \<notin> set (signers facts)"
  shows "validate D A facts out = Inl AuthorizationError"
  using assms by (simp add: validate_def)

text \<open>A transition signed by the owner is accepted.\<close>

lemma validate_accepts_owner_signed:
  "validate exampleDatum (ChangeOwner ''bb'')
     \<lparr>signers = [''aa''], lower_bound = None, upper_bound = None\<rparr>
     (Some \<lparr>reattaches_token = True, new_record = exampleDatum\<lparr>owner := ''bb'', nonce := 8\<rparr>\<rparr>)
   = Inr (exampleDatum\<lparr>owner := ''bb'', nonce := 8\<rparr>)"
  by (simp add: validate_def same_record_def exampleDatum_def)

theorem unauthorized_rejected_witness:
  "isDelegateValid \<lparr>delegateAddress = ''d1'', delegateType = ''sigAuth'', validUntil = 0\<rparr> 1700000000000
   \<and> owner exampleDatum \<notin> set [''d1'']
   \<and> validate exampleDatum (ChangeOwner ''d1'')
       \<lparr>signers = [''d1''], lower_bound = Some 1699999940000, upper_bound = Some 1700000600000\<rparr>
       (Some \<lparr>reattaches_token = True, new_record = exampleDatum\<lparr>owner := ''d1'', nonce := 8\<rparr>\<rparr>)
     = Inl AuthorizationError"
proof -
  have h: "owner exampleDatum \<notin>
             set (signers \<lparr>signers = [''d1''], lower_bound = Some 1699999940000,
                            upper_bound = Some 1700000600000\<rparr>)"
    by (simp add: exampleDatum_def)
  from unauthorized_rejected [OF h] h show ?thesis
    by (simp add: isDelegateValid_def)
qed

text \<open>
  The builders do not compare the wallet with the owner: the required signer of the
  built transaction is the key of the wallet, and the decision is left to the validator.
\<close>

lemma builders_sign_with_wallet:
  assumes "currentIdentity env = Inr (u, D, tn)"
  shows "map_sum id requiredSignerHash (changeOwner env newOwner) = Inr (walletPkh env)"
  using assms by (simp add: builder_defs)

subsection \<open>The loops of the projection in closed form\<close>

lemma delegateStep_apply:
  "delegateStep did net (vms, au, asr, ka) (i, d) =
     (vms @ [delegateEntry net did i d],
      au @ (if delegateType d = ''veriKey'' then [delegateEntryId did i] else []),
      asr @ (if delegateType d = ''sigAuth'' then [delegateEntryId did i] else []),
      ka @ (if delegateType d = ''enc'' then [delegateEntryId did i] else []))"
  by (simp add: delegateStep_def Let_def delegateEntry_def delegateEntryId_def)

lemma serviceStep_apply:
  "serviceStep did acc (i, a) =
     acc @ (if prefix ''did/svc/'' (attrName a) then [serviceEntry did i a] else [])"
  by (simp add: serviceStep_def Let_def serviceEntry_def serviceId_def)

lemma foldl_delegateStep:
  "foldl (delegateStep did net) (vms, au, asr, ka) (enumerate k ds) =
     (vms @ map (\<lambda>(i, d). delegateEntry net did i d) (enumerate k ds),
      au @ [delegateEntryId did i. (i, d) \<leftarrow> enumerate k ds, delegateType d = ''veriKey''],
      asr @ [delegateEntryId did i. (i, d) \<leftarrow> enumerate k ds, delegateType d = ''sigAuth''],
      ka @ [delegateEntryId did i. (i, d) \<leftarrow> enumerate k ds, delegateType d = ''enc''])"
proof (induction ds arbitrary: k vms au asr ka)
  case Nil
  then show ?case by simp
next
  case (Cons d ds)
  show ?case
    by (simp add: delegateStep_apply Cons.IH)
qed

lemma foldl_serviceStep:
  "foldl (serviceStep did) acc (enumerate k xs) =
     acc @ [serviceEntry did i a. (i, a) \<leftarrow> enumerate k xs, prefix ''did/svc/'' (attrName a)]"
proof (induction xs arbitrary: k acc)
  case Nil
  then show ?case by simp
next
  case (Cons a xs)
  show ?case
    by (simp add: serviceStep_apply Cons.IH)
qed

lemma keys_assign: "fst ` set (assign obj k v) = insert k (fst ` set obj)"
  by (induction obj k v rule: assign.induct) auto

lemma keys_customStep:
  "fst ` set (foldl customStep acc xs) =
     fst ` set acc \<union>
     attrName ` {a \<in> set xs. \<not> prefix ''did/'' (attrName a) \<and> attrName a \<noteq> ''__proto__''}"
proof (induction xs arbitrary: acc)
  case Nil
  then show ?case by simp
next
  case (Cons a xs)
  have "fst ` set (foldl customStep acc (a # xs)) =
          fst ` set (customStep acc a) \<union>
          attrName ` {a \<in> set xs. \<not> prefix ''did/'' (attrName a) \<and> attrName a \<noteq> ''__proto__''}"
    by (simp add: Cons.IH)
  also have "fst ` set (customStep acc a) =
          fst ` set acc \<union>
          attrName ` {b \<in> {a}. \<not> prefix ''did/'' (attrName b) \<and> attrName b \<noteq> ''__proto__''}"
    by (auto simp add: customStep_def keys_assign)
  finally show ?case by auto
qed

lemma the_list_if: "the_list (if length xs > 0 then Some xs else None) = xs"
  by (cases xs) (simp_all add: the_list_def)

lemma buildDIDDocument_closed:
  "buildDIDDocument net did datum t =
     \<lparr>doc_context = [''https://www.w3.org/ns/did/v1'',
                      ''https://w3id.org/security/suites/ed25519-2020/v1''],
      doc_id = did,
      controller = [did],
      verificationMethod =
        [ownerEntry net did datum] @
        map (\<lambda>(i, d). delegateEntry net did i d) (enumerate 0 (getValidDelegates datum t)),
      authentication =
        [did @ ''#owner''] @
        [delegateEntryId did i. (i, d) \<leftarrow> enumerate 0 (getValidDelegates datum t),
           delegateType d = ''veriKey''],
      assertionMethod =
        [did @ ''#owner''] @
        [delegateEntryId did i. (i, d) \<leftarrow> enumerate 0 (getValidDelegates datum t),
           delegateType d = ''sigAuth''],
      keyAgreement =
        (if length ([] @ [delegateEntryId did i. (i, d) \<leftarrow> enumerate 0 (getValidDelegates datum t),
                      delegateType d = ''enc'']) > 0
         then Some ([] @ [delegateEntryId did i. (i, d) \<leftarrow> enumerate 0 (getValidDelegates datum t),
                      delegateType d = ''enc''])
         else None),
      capabilityInvocation = [did @ ''#owner''],
      capabilityDelegation = [did @ ''#owner''],
      service =
        (if length ([] @ [serviceEntry did i a. (i, a) \<leftarrow> enumerate 0 (getValidAttributes datum t),
                      prefix ''did/svc/'' (attrName a)]) > 0
         then Some ([] @ [serviceEntry did i a. (i, a) \<leftarrow> enumerate 0 (getValidAttributes datum t),
                      prefix ''did/svc/'' (attrName a)])
         else None),
      cardanoIdentity =
        (if length (foldl customStep [] (getValidAttributes datum t)) > 0
         then Some \<lparr>ci_network = net, ci_nonce = nonce datum,
                     ci_attributes = foldl customStep [] (getValidAttributes datum t)\<rparr>
         else None)\<rparr>"
  unfolding buildDIDDocument_def Let_def foldl_delegateStep foldl_serviceStep prod.case
    ownerEntry_def getValidDelegates_def getValidAttributes_def
  by (rule refl)

text \<open>
  Claim C9. In the document projected from a Record at time \<open>t\<close>, the verification
  entries are the entry of the owner followed by one entry for each delegate that is
  valid at \<open>t\<close>, and no other. The type of a valid delegate selects the relationship that
  lists its entry: \<open>veriKey\<close> authentication, \<open>sigAuth\<close> assertionMethod, \<open>enc\<close>
  keyAgreement. The service endpoints are those of the valid attributes whose name
  starts with \<open>did/svc/\<close>: the type is the name without these eight characters and the
  endpoint is the value of the attribute.
\<close>

theorem projection_entries:
  "verificationMethod (buildDIDDocument net did datum t) =
     ownerEntry net did datum #
     map (\<lambda>(i, d). delegateEntry net did i d) (enumerate 0 (getValidDelegates datum t))
   \<and> authentication (buildDIDDocument net did datum t) =
     (did @ ''#owner'') #
     [delegateEntryId did i. (i, d) \<leftarrow> enumerate 0 (getValidDelegates datum t),
        delegateType d = ''veriKey'']
   \<and> assertionMethod (buildDIDDocument net did datum t) =
     (did @ ''#owner'') #
     [delegateEntryId did i. (i, d) \<leftarrow> enumerate 0 (getValidDelegates datum t),
        delegateType d = ''sigAuth'']
   \<and> the_list (keyAgreement (buildDIDDocument net did datum t)) =
     [delegateEntryId did i. (i, d) \<leftarrow> enumerate 0 (getValidDelegates datum t),
        delegateType d = ''enc'']
   \<and> the_list (service (buildDIDDocument net did datum t)) =
     [serviceEntry did i a. (i, a) \<leftarrow> enumerate 0 (getValidAttributes datum t),
        prefix ''did/svc/'' (attrName a)]"
  by (simp only: buildDIDDocument_closed DIDDocument.simps the_list_if append_Nil append_Cons
        simp_thms)

subsection \<open>Indices print to different numerals\<close>

lemma digit_inj:
  assumes "n < 10" "m < 10" "''0123456789'' ! n = ''0123456789'' ! m"
  shows "n = m"
proof -
  have d: "distinct ''0123456789''" by simp
  have l: "length ''0123456789'' = 10" by simp
  from assms show ?thesis
    using nth_eq_iff_index_eq [OF d, of n m] l by simp
qed

lemma string_of_nat_nonempty: "string_of_nat n \<noteq> []"
  by (subst string_of_nat.simps) simp

lemma string_of_nat_small: "n < 10 \<Longrightarrow> string_of_nat n = [''0123456789'' ! n]"
  by (subst string_of_nat.simps) simp

lemma string_of_nat_large:
  "\<not> n < 10 \<Longrightarrow> string_of_nat n = string_of_nat (n div 10) @ [''0123456789'' ! (n mod 10)]"
  by (subst string_of_nat.simps) simp

lemma string_of_nat_inj: "string_of_nat n = string_of_nat m \<Longrightarrow> n = m"
proof (induction n arbitrary: m rule: string_of_nat.induct)
  case (1 n)
  show ?case
  proof (cases "n < 10")
    case nsmall: True
    show ?thesis
    proof (cases "m < 10")
      case True
      with nsmall "1.prems" show ?thesis
        by (simp add: string_of_nat_small digit_inj)
    next
      case False
      with nsmall "1.prems" string_of_nat_nonempty [of "m div 10"] show ?thesis
        by (simp add: string_of_nat_small string_of_nat_large)
    qed
  next
    case nlarge: False
    show ?thesis
    proof (cases "m < 10")
      case True
      with nlarge "1.prems" string_of_nat_nonempty [of "n div 10"] show ?thesis
        by (simp add: string_of_nat_small string_of_nat_large)
    next
      case False
      with nlarge "1.prems" have
        eq: "string_of_nat (n div 10) = string_of_nat (m div 10)"
        and dg: "''0123456789'' ! (n mod 10) = ''0123456789'' ! (m mod 10)"
        by (simp_all add: string_of_nat_large)
      from "1.IH" [OF nlarge eq] have "n div 10 = m div 10" .
      moreover from dg have "n mod 10 = m mod 10"
        by (intro digit_inj) simp_all
      ultimately show ?thesis
        by (metis div_mult_mod_eq)
    qed
  qed
qed

lemma serviceId_inj: "serviceId did i = serviceId did j \<Longrightarrow> i = j"
  by (simp add: serviceId_def string_of_nat_inj)

lemma in_set_services:
  "s \<in> set [serviceEntry did i a. (i, a) \<leftarrow> enumerate k xs, prefix ''did/svc/'' (attrName a)] \<longleftrightarrow>
   (\<exists>i. i < length xs \<and> prefix ''did/svc/'' (attrName (xs ! i)) \<and> s = serviceEntry did (k + i) (xs ! i))"
proof
  assume "s \<in> set [serviceEntry did i a. (i, a) \<leftarrow> enumerate k xs, prefix ''did/svc/'' (attrName a)]"
  then obtain j b where jb: "(j, b) \<in> set (enumerate k xs)" "prefix ''did/svc/'' (attrName b)"
      "s = serviceEntry did j b"
    by (auto split: if_splits)
  from jb(1) have "k \<le> j" "j - k < length xs" "b = xs ! (j - k)"
    by (auto simp add: in_set_enumerate_eq)
  with jb(2,3) show "\<exists>i. i < length xs \<and> prefix ''did/svc/'' (attrName (xs ! i))
      \<and> s = serviceEntry did (k + i) (xs ! i)"
    by (intro exI [of _ "j - k"]) simp
next
  assume "\<exists>i. i < length xs \<and> prefix ''did/svc/'' (attrName (xs ! i))
      \<and> s = serviceEntry did (k + i) (xs ! i)"
  then obtain i where i: "i < length xs" "prefix ''did/svc/'' (attrName (xs ! i))"
      "s = serviceEntry did (k + i) (xs ! i)"
    by blast
  then have "(k + i, xs ! i) \<in> set (enumerate k xs)"
    by (simp add: in_set_enumerate_eq)
  with i(2,3) show "s \<in> set [serviceEntry did i a. (i, a) \<leftarrow> enumerate k xs,
      prefix ''did/svc/'' (attrName a)]"
    by force
qed

text \<open>
  Claim C10. Let \<open>a\<close> be an attribute that is valid at time \<open>t\<close> and whose name starts
  with \<open>did/\<close> but not with \<open>did/svc/\<close>. Every service endpoint of the projected
  document comes from another attribute, one whose name starts with \<open>did/svc/\<close>; no
  service endpoint carries the position of \<open>a\<close>; and the name of \<open>a\<close> is not a key of the
  custom attributes under \<open>cardanoIdentity\<close>.
\<close>

theorem did_attributes_hidden:
  assumes valid: "a \<in> set (getValidAttributes datum t)"
    and did: "prefix ''did/'' (attrName a)"
    and nosvc: "\<not> prefix ''did/svc/'' (attrName a)"
  shows "(\<forall>s \<in> set (the_list (service (buildDIDDocument net did datum t))).
            \<exists>i. i < length (getValidAttributes datum t)
              \<and> prefix ''did/svc/'' (attrName (getValidAttributes datum t ! i))
              \<and> getValidAttributes datum t ! i \<noteq> a
              \<and> s = serviceEntry did i (getValidAttributes datum t ! i))
       \<and> (\<forall>i < length (getValidAttributes datum t). getValidAttributes datum t ! i = a \<longrightarrow>
            serviceId did i \<notin> svc_id ` set (the_list (service (buildDIDDocument net did datum t))))
       \<and> (\<forall>ci. cardanoIdentity (buildDIDDocument net did datum t) = Some ci \<longrightarrow>
            attrName a \<notin> fst ` set (ci_attributes ci))"
proof -
  let ?va = "getValidAttributes datum t"
  let ?doc = "buildDIDDocument net did datum t"
  have sv: "the_list (service ?doc) =
      [serviceEntry did i a. (i, a) \<leftarrow> enumerate 0 ?va, prefix ''did/svc/'' (attrName a)]"
    by (simp only: buildDIDDocument_closed DIDDocument.simps the_list_if append_Nil)
  have p1: "\<forall>s \<in> set (the_list (service ?doc)).
            \<exists>i. i < length ?va \<and> prefix ''did/svc/'' (attrName (?va ! i)) \<and> ?va ! i \<noteq> a
              \<and> s = serviceEntry did i (?va ! i)"
  proof
    fix s assume "s \<in> set (the_list (service ?doc))"
    then obtain i where i: "i < length ?va" "prefix ''did/svc/'' (attrName (?va ! i))"
        "s = serviceEntry did (0 + i) (?va ! i)"
      unfolding sv in_set_services by blast
    moreover from i nosvc have "?va ! i \<noteq> a" by auto
    ultimately show "\<exists>i. i < length ?va \<and> prefix ''did/svc/'' (attrName (?va ! i)) \<and> ?va ! i \<noteq> a
              \<and> s = serviceEntry did i (?va ! i)"
      by auto
  qed
  have p2: "\<forall>i < length ?va. ?va ! i = a \<longrightarrow> serviceId did i \<notin> svc_id ` set (the_list (service ?doc))"
  proof (intro allI impI notI)
    fix i assume "i < length ?va" and ia: "?va ! i = a"
      and "serviceId did i \<in> svc_id ` set (the_list (service ?doc))"
    then obtain s where s: "s \<in> set (the_list (service ?doc))" and "svc_id s = serviceId did i"
      by auto
    with p1 obtain j where "prefix ''did/svc/'' (attrName (?va ! j))"
      and "serviceId did j = serviceId did i"
      by (auto simp add: serviceEntry_def)
    with serviceId_inj [of did j i] ia nosvc show False by simp
  qed
  have p3: "\<forall>ci. cardanoIdentity ?doc = Some ci \<longrightarrow> attrName a \<notin> fst ` set (ci_attributes ci)"
  proof (intro allI impI)
    fix ci assume "cardanoIdentity ?doc = Some ci"
    then have "ci_attributes ci = foldl customStep [] ?va"
      by (simp only: buildDIDDocument_closed DIDDocument.simps split: if_splits) auto
    then show "attrName a \<notin> fst ` set (ci_attributes ci)"
      using did by (auto simp add: keys_customStep)
  qed
  from p1 p2 p3 show ?thesis by blast
qed

subsection \<open>The projection of a concrete Record\<close>

lemma exampleProfile_valid:
  "getValidDelegates exampleProfile 100 =
     [\<lparr>delegateAddress = ''d1'', delegateType = ''veriKey'', validUntil = 0\<rparr>,
      \<lparr>delegateAddress = ''d3'', delegateType = ''enc'', validUntil = 200\<rparr>,
      \<lparr>delegateAddress = ''d4'', delegateType = ''sigAuth'', validUntil = 101\<rparr>]"
  "getValidAttributes exampleProfile 100 =
     [\<lparr>attrName = ''did/pub/key'', attrValue = ''abc'', attrValidUntil = 0\<rparr>,
      \<lparr>attrName = ''did/svc/hub'', attrValue = ''https://hub'', attrValidUntil = 0\<rparr>,
      \<lparr>attrName = ''name'', attrValue = ''Alice'', attrValidUntil = 300\<rparr>]"
  by (simp_all add: getValidDelegates_def getValidAttributes_def exampleProfile_def
        isDelegateValid_def isAttributeValid_def)

lemma projection_example:
  "buildDIDDocument ''preprod'' ''did:x'' exampleProfile 100 =
     \<lparr>doc_context = [''https://www.w3.org/ns/did/v1'',
                      ''https://w3id.org/security/suites/ed25519-2020/v1''],
      doc_id = ''did:x'',
      controller = [''did:x''],
      verificationMethod =
        [\<lparr>vm_id = ''did:x#owner'', vm_type = ''Ed25519VerificationKey2020'',
          vm_controller = ''did:x'', blockchainAccountId = ''cardano:preprod:bb''\<rparr>,
         \<lparr>vm_id = ''did:x#delegate-0'', vm_type = ''Ed25519VerificationKey2020'',
          vm_controller = ''did:x'', blockchainAccountId = ''cardano:preprod:d1''\<rparr>,
         \<lparr>vm_id = ''did:x#delegate-1'', vm_type = ''Ed25519VerificationKey2020'',
          vm_controller = ''did:x'', blockchainAccountId = ''cardano:preprod:d3''\<rparr>,
         \<lparr>vm_id = ''did:x#delegate-2'', vm_type = ''Ed25519VerificationKey2020'',
          vm_controller = ''did:x'', blockchainAccountId = ''cardano:preprod:d4''\<rparr>],
      authentication = [''did:x#owner'', ''did:x#delegate-0''],
      assertionMethod = [''did:x#owner'', ''did:x#delegate-2''],
      keyAgreement = Some [''did:x#delegate-1''],
      capabilityInvocation = [''did:x#owner''],
      capabilityDelegation = [''did:x#owner''],
      service = Some [\<lparr>svc_id = ''did:x#service-1'', svc_type = ''hub'',
                       serviceEndpoint = ''https://hub''\<rparr>],
      cardanoIdentity = Some \<lparr>ci_network = ''preprod'', ci_nonce = 4,
                              ci_attributes = [(''name'', ''Alice'')]\<rparr>\<rparr>"
  unfolding buildDIDDocument_closed exampleProfile_valid
  by (simp add: ownerEntry_def delegateEntry_def delegateEntryId_def serviceEntry_def serviceId_def
        string_of_nat_small customStep_def exampleProfile_def)

theorem projection_entries_witness:
  "map vm_id (verificationMethod (buildDIDDocument ''preprod'' ''did:x'' exampleProfile 100)) =
     [''did:x#owner'', ''did:x#delegate-0'', ''did:x#delegate-1'', ''did:x#delegate-2'']
   \<and> authentication (buildDIDDocument ''preprod'' ''did:x'' exampleProfile 100) =
     [''did:x#owner'', ''did:x#delegate-0'']
   \<and> assertionMethod (buildDIDDocument ''preprod'' ''did:x'' exampleProfile 100) =
     [''did:x#owner'', ''did:x#delegate-2'']
   \<and> the_list (keyAgreement (buildDIDDocument ''preprod'' ''did:x'' exampleProfile 100)) =
     [''did:x#delegate-1'']
   \<and> the_list (service (buildDIDDocument ''preprod'' ''did:x'' exampleProfile 100)) =
     [\<lparr>svc_id = ''did:x#service-1'', svc_type = ''hub'', serviceEndpoint = ''https://hub''\<rparr>]"
  using projection_entries [of "''preprod''" "''did:x''" exampleProfile 100]
  by (simp add: exampleProfile_valid ownerEntry_def delegateEntry_def delegateEntryId_def
        serviceEntry_def serviceId_def string_of_nat_small)

theorem did_attributes_hidden_witness:
  "\<lparr>attrName = ''did/pub/key'', attrValue = ''abc'', attrValidUntil = 0\<rparr>
      \<in> set (getValidAttributes exampleProfile 100)
   \<and> prefix ''did/'' ''did/pub/key'' \<and> \<not> prefix ''did/svc/'' ''did/pub/key''
   \<and> getValidAttributes exampleProfile 100 ! 0 =
        \<lparr>attrName = ''did/pub/key'', attrValue = ''abc'', attrValidUntil = 0\<rparr>
   \<and> serviceId ''did:x'' 0 \<notin>
        svc_id ` set (the_list (service (buildDIDDocument ''preprod'' ''did:x'' exampleProfile 100)))
   \<and> \<not> (\<exists>ci. cardanoIdentity (buildDIDDocument ''preprod'' ''did:x'' exampleProfile 100) = Some ci
              \<and> ''did/pub/key'' \<in> fst ` set (ci_attributes ci))"
proof -
  let ?a = "\<lparr>attrName = ''did/pub/key'', attrValue = ''abc'', attrValidUntil = 0\<rparr>"
  have h1: "?a \<in> set (getValidAttributes exampleProfile 100)"
    by (simp add: exampleProfile_valid)
  have h2: "prefix ''did/'' (attrName ?a)" by simp
  have h3: "\<not> prefix ''did/svc/'' (attrName ?a)" by simp
  have i0: "0 < length (getValidAttributes exampleProfile 100)"
    "getValidAttributes exampleProfile 100 ! 0 = ?a"
    by (simp_all add: exampleProfile_valid)
  from did_attributes_hidden [OF h1 h2 h3, of "''preprod''" "''did:x''"] h1 h2 h3 i0
  show ?thesis by auto
qed

subsection \<open>The four bytes of the output index\<close>

lemma length_setUint32: "length (setUint32 v) = 4"
  by (simp add: setUint32_def Let_def)

lemma length_putInt: "length (putInt x) = 4"
  by (simp add: putInt_def)

lemma big_endian_4:
  "big_endian 4 n =
     [of_nat (n div 256 div 256 div 256 mod 256), of_nat (n div 256 div 256 mod 256),
      of_nat (n div 256 mod 256), of_nat (n mod 256)]"
proof -
  have four: "(4::nat) = Suc (Suc (Suc (Suc 0)))" by simp
  show ?thesis unfolding four by simp
qed

lemma div_pows:
  "(n::nat) div 2 ^ 24 = n div 256 div 256 div 256"
  "(n::nat) div 2 ^ 16 = n div 256 div 256"
  "(n::nat) div 2 ^ 8 = n div 256"
proof -
  have "n div 256 div 256 div 256 = n div (256 * 256 * 256)"
    by (simp only: div_mult2_eq)
  then show "n div 2 ^ 24 = n div 256 div 256 div 256" by simp
  have "n div 256 div 256 = n div (256 * 256)"
    by (simp only: div_mult2_eq)
  then show "n div 2 ^ 16 = n div 256 div 256" by simp
  show "n div 2 ^ 8 = n div 256" by simp
qed

lemma setUint32_nested:
  "setUint32 v =
     (let u = nat (v mod 2 ^ 32)
      in [of_nat (u div 256 div 256 div 256 mod 256), of_nat (u div 256 div 256 mod 256),
          of_nat (u div 256 mod 256), of_nat (u mod 256)])"
  unfolding setUint32_def div_pows by (rule refl)

lemma setUint32_big_endian:
  assumes "0 \<le> v" "v < 2 ^ 32"
  shows "setUint32 v = big_endian 4 (nat v)"
proof -
  have m: "nat (v mod 2 ^ 32) = nat v" using assms by simp
  show ?thesis
    unfolding setUint32_nested Let_def m big_endian_4 by (rule refl)
qed

lemma unat_byte_of_nat: "unat (of_nat (n mod 256) :: byte) = n mod 256"
  by (simp add: unat_of_nat)

lemma bytes_value:
  fixes u :: nat
  assumes "u < 2 ^ 32"
  shows "((u div 256 div 256 div 256 mod 256) * 256 + u div 256 div 256 mod 256) * 256 * 256
        + (u div 256 mod 256) * 256 + u mod 256 = u"
proof -
  have "u div 256 div 256 div 256 < 256"
    using assms unfolding div_pows(1) [symmetric] by (simp add: less_mult_imp_div_less)
  then have q3: "u div 256 div 256 div 256 mod 256 = u div 256 div 256 div 256" by simp
  have a: "u div 256 div 256 div 256 * 256 + u div 256 div 256 mod 256 = u div 256 div 256"
    by (rule div_mult_mod_eq)
  have b: "u div 256 div 256 * 256 + u div 256 mod 256 = u div 256"
    by (rule div_mult_mod_eq)
  have c: "u div 256 * 256 + u mod 256 = u"
    by (rule div_mult_mod_eq)
  have "(u div 256 div 256) * 256 * 256 + (u div 256 mod 256) * 256 + u mod 256 = u"
    using b c by (metis add_mult_distrib)
  then show ?thesis unfolding q3 a .
qed

lemma unat_word_of_int_32: "unat (word_of_int v :: 32 word) = nat (v mod 2 ^ 32)"
  by (simp add: unat_eq_nat_uint uint_word_of_int_eq take_bit_eq_mod)

lemma byte_of_word:
  fixes w :: "32 word"
  shows "(ucast (drop_bit k w) :: byte) = of_nat (unat w div 2 ^ k mod 256)"
proof -
  have "unat (ucast (drop_bit k w) :: byte) = unat w div 2 ^ k mod 256"
    by (simp only: unsigned_ucast_eq unat_drop_bit_eq) (simp add: take_bit_eq_mod drop_bit_eq_div)
  moreover have "unat (of_nat (unat w div 2 ^ k mod 256) :: byte) = unat w div 2 ^ k mod 256"
    by (rule unat_byte_of_nat)
  ultimately show ?thesis by (simp only: word_unat_eq_iff)
qed

lemma putInt_bytes:
  "putInt x =
     [of_nat (unat x div 2 ^ 24 mod 256), of_nat (unat x div 2 ^ 16 mod 256),
      of_nat (unat x div 2 ^ 8 mod 256), of_nat (unat x mod 256)]"
  using byte_of_word [of 24 x] byte_of_word [of 16 x] byte_of_word [of 8 x] byte_of_word [of 0 x]
  by (simp add: putInt_def)

lemma putInt_word_of_int: "putInt (word_of_int v) = setUint32 v"
  unfolding putInt_bytes setUint32_def Let_def unat_word_of_int_32 by (rule refl)

lemma setUint32_value:
  "(case setUint32 v of
      [b3, b2, b1, b0] \<Rightarrow> ((unat b3 * 256 + unat b2) * 256 * 256 + unat b1 * 256 + unat b0)
    | _ \<Rightarrow> 0) = nat (v mod 2 ^ 32)"
proof -
  have u: "nat (v mod 2 ^ 32) < 2 ^ 32" by (simp add: nat_less_iff)
  show ?thesis
    unfolding setUint32_nested Let_def
    by (simp only: list.case unat_byte_of_nat bytes_value [OF u])
qed

lemma setUint32_inj:
  assumes "setUint32 v = setUint32 w"
  shows "v mod 2 ^ 32 = w mod 2 ^ 32"
proof -
  from assms setUint32_value [of v] setUint32_value [of w]
  have "nat (v mod 2 ^ 32) = nat (w mod 2 ^ 32)" by simp
  then show ?thesis by simp
qed

lemma putInt_inj: "putInt x = putInt y \<Longrightarrow> x = y"
proof -
  assume "putInt x = putInt y"
  then have "setUint32 (uint x) = setUint32 (uint y)"
    by (simp add: putInt_word_of_int [symmetric])
  then have "uint x mod 2 ^ 32 = uint y mod 2 ^ 32" by (rule setUint32_inj)
  moreover have "uint x mod 2 ^ 32 = uint x" "uint y mod 2 ^ 32 = uint y"
    using uint_bounded [of x] uint_bounded [of y] by simp_all
  ultimately have "uint x = uint y" by simp
  then show "x = y" by (simp only: word_uint_eq_iff)
qed

text \<open>
  The hashed bytes determine the reference: the transaction hash bytes, and the index
  modulo \<open>2\<^sup>3\<^sup>2\<close> in TypeScript, the \<^verbatim>\<open>int\<close> itself in Java.
\<close>

lemma preimage_inj_java:
  assumes "b1 @ putInt x1 = b2 @ putInt x2"
  shows "b1 = b2 \<and> x1 = x2"
  using assms putInt_inj [of x1 x2] by (simp add: length_putInt)

lemma preimage_inj:
  assumes "b1 @ setUint32 i1 = b2 @ setUint32 i2"
  shows "b1 = b2 \<and> i1 mod 2 ^ 32 = i2 mod 2 ^ 32"
  using assms setUint32_inj [of i1 i2] by (simp add: length_setUint32)

subsection \<open>Token names\<close>

lemma example_decode: "exampleDecodeHex ''00ff'' = Some [0, 255]"
  by (simp add: hexValue_def)

lemma example_token_name:
  "computeIdentityTokenName exampleLib ''00ff'' 258 = Some ''00ff00000102''"
  by (simp add: computeIdentityTokenName_def exampleLib_def hexValue_def setUint32_def
        exampleEncodeHex_def Let_def)

text \<open>
  \<^verbatim>\<open>setUint32\<close> keeps the index modulo \<open>2\<^sup>3\<^sup>2\<close>; the output index of a reference is
  below \<open>2\<^sup>3\<^sup>2\<close>.
\<close>

lemma setUint32_wraps: "setUint32 4294967296 = setUint32 0"
  by (simp add: setUint32_def)

lemma token_name_of_bytes:
  "decodeHex L h = Some b \<Longrightarrow>
   computeIdentityTokenName L h i = Some (encodeHex L (sha256 L (b @ setUint32 i)))"
  by (simp add: computeIdentityTokenName_def Let_def)

lemma java_token_name_of_bytes:
  "decodeHex L h = Some b \<Longrightarrow>
   computeIdentityTokenName_java L h x = Some (encodeHex L (sha256 L (b @ putInt x)))"
  by (simp add: computeIdentityTokenName_java_def)

text \<open>The hexadecimal encoding of the example library is injective.\<close>

lemma hexdigit_inj:
  assumes "n < 16" "m < 16" "''0123456789abcdef'' ! n = ''0123456789abcdef'' ! m"
  shows "n = m"
proof -
  have d: "distinct ''0123456789abcdef''" by simp
  have l: "length ''0123456789abcdef'' = 16" by simp
  from assms show ?thesis
    using nth_eq_iff_index_eq [OF d, of n m] l by simp
qed

lemma hex_of_byte_inj:
  fixes b c :: byte
  assumes "''0123456789abcdef'' ! (unat b div 16) = ''0123456789abcdef'' ! (unat c div 16)"
    and "''0123456789abcdef'' ! (unat b mod 16) = ''0123456789abcdef'' ! (unat c mod 16)"
  shows "b = c"
proof -
  have bb: "unat b < 256" and cb: "unat c < 256"
    using unsigned_less [of b, where ?'a = nat] unsigned_less [of c, where ?'a = nat] by simp_all
  then have q16: "unat b div 16 < 16" "unat c div 16 < 16" by simp_all
  from q16 assms(1) have q: "unat b div 16 = unat c div 16" by (rule hexdigit_inj)
  have r16: "unat b mod 16 < 16" "unat c mod 16 < 16" by simp_all
  from r16 assms(2) have r: "unat b mod 16 = unat c mod 16" by (rule hexdigit_inj)
  from q r have "unat b = unat c" by (metis div_mult_mod_eq)
  then show ?thesis by (simp only: word_unat_eq_iff)
qed

lemma exampleEncodeHex_eq: "exampleEncodeHex bs = exampleEncodeHex cs \<Longrightarrow> bs = cs"
proof (induction bs arbitrary: cs)
  case Nil
  then show ?case by (cases cs) (simp_all add: exampleEncodeHex_def)
next
  case (Cons b bs)
  show ?case
  proof (cases cs)
    case Nil
    with Cons.prems show ?thesis by (simp add: exampleEncodeHex_def)
  next
    case (Cons c cs')
    with Cons.prems have h1:
        "''0123456789abcdef'' ! (unat b div 16) = ''0123456789abcdef'' ! (unat c div 16)"
      and h2: "''0123456789abcdef'' ! (unat b mod 16) = ''0123456789abcdef'' ! (unat c mod 16)"
      and tl: "exampleEncodeHex bs = exampleEncodeHex cs'"
      by (simp_all add: exampleEncodeHex_def)
    from h1 h2 have "b = c" by (rule hex_of_byte_inj)
    moreover from tl have "bs = cs'" by (rule Cons.IH)
    ultimately show ?thesis using Cons by simp
  qed
qed

lemma exampleEncodeHex_inj: "inj exampleEncodeHex"
  by (rule injI) (rule exampleEncodeHex_eq)

text \<open>
  Claim C3. Take two references: transaction hashes that decode to the bytes \<open>b1\<close> and
  \<open>b2\<close>, with output indices \<open>i1\<close> and \<open>i2\<close> in \<open>[0, 2\<^sup>3\<^sup>2)\<close>. The TypeScript function
  returns the hexadecimal encoding of the SHA-256 hash of the transaction hash bytes
  followed by the index as a big-endian integer of four bytes; it returns the same name
  for every spelling of the same transaction hash, and the Java function returns the same
  name for the \<^verbatim>\<open>int\<close> of the same value. When the references are distinct, the hashed
  byte strings are distinct, and the token names are distinct unless SHA-256 collides on
  these two byte strings. The hexadecimal encoding is injective; SHA-256 and the codec
  are the functions of the library \<open>L\<close>.
\<close>

theorem token_names_distinct:
  assumes d1: "decodeHex L h1 = Some b1" and d2: "decodeHex L h2 = Some b2"
    and r1: "0 \<le> i1" "i1 < 2 ^ 32" and r2: "0 \<le> i2" "i2 < 2 ^ 32"
    and enc: "inj (encodeHex L)"
    and ne: "(b1, i1) \<noteq> (b2, i2)"
    and nocol: "\<not> collision (sha256 L) (b1 @ big_endian 4 (nat i1)) (b2 @ big_endian 4 (nat i2))"
  shows "computeIdentityTokenName L h1 i1 = Some (tokenName_spec L b1 (nat i1))
       \<and> computeIdentityTokenName L h2 i2 = Some (tokenName_spec L b2 (nat i2))
       \<and> (\<forall>h. decodeHex L h = Some b1 \<longrightarrow>
             computeIdentityTokenName L h i1 = computeIdentityTokenName L h1 i1)
       \<and> (\<forall>x :: 32 word. sint x = i1 \<longrightarrow>
             computeIdentityTokenName_java L h1 x = computeIdentityTokenName L h1 i1)
       \<and> b1 @ big_endian 4 (nat i1) \<noteq> b2 @ big_endian 4 (nat i2)
       \<and> computeIdentityTokenName L h1 i1 \<noteq> computeIdentityTokenName L h2 i2"
proof -
  let ?p1 = "b1 @ big_endian 4 (nat i1)" and ?p2 = "b2 @ big_endian 4 (nat i2)"
  have ts1: "computeIdentityTokenName L h1 i1 = Some (tokenName_spec L b1 (nat i1))"
    by (simp only: token_name_of_bytes [OF d1] tokenName_spec_def setUint32_big_endian [OF r1])
  have ts2: "computeIdentityTokenName L h2 i2 = Some (tokenName_spec L b2 (nat i2))"
    by (simp only: token_name_of_bytes [OF d2] tokenName_spec_def setUint32_big_endian [OF r2])
  have det: "\<forall>h. decodeHex L h = Some b1 \<longrightarrow>
             computeIdentityTokenName L h i1 = computeIdentityTokenName L h1 i1"
  proof (intro allI impI)
    fix h assume "decodeHex L h = Some b1"
    then show "computeIdentityTokenName L h i1 = computeIdentityTokenName L h1 i1"
      by (simp only: token_name_of_bytes token_name_of_bytes [OF d1])
  qed
  have java: "\<forall>x :: 32 word. sint x = i1 \<longrightarrow>
             computeIdentityTokenName_java L h1 x = computeIdentityTokenName L h1 i1"
  proof (intro allI impI)
    fix x :: "32 word" assume x: "sint x = i1"
    have "putInt x = putInt (word_of_int (sint x))" by simp
    also have "\<dots> = setUint32 (sint x)" by (rule putInt_word_of_int)
    finally have "putInt x = setUint32 i1" by (simp only: x)
    then show "computeIdentityTokenName_java L h1 x = computeIdentityTokenName L h1 i1"
      by (simp only: java_token_name_of_bytes [OF d1] token_name_of_bytes [OF d1])
  qed
  have pre: "?p1 \<noteq> ?p2"
  proof
    assume "?p1 = ?p2"
    then have "b1 @ setUint32 i1 = b2 @ setUint32 i2"
      by (simp only: setUint32_big_endian [OF r1] setUint32_big_endian [OF r2])
    from preimage_inj [OF this] r1 r2 have "b1 = b2 \<and> i1 = i2" by simp
    with ne show False by simp
  qed
  from nocol pre have "sha256 L ?p1 \<noteq> sha256 L ?p2"
    by (simp add: collision_def)
  with enc have "encodeHex L (sha256 L ?p1) \<noteq> encodeHex L (sha256 L ?p2)"
    by (simp add: inj_eq)
  then have names: "computeIdentityTokenName L h1 i1 \<noteq> computeIdentityTokenName L h2 i2"
    by (simp add: ts1 ts2 tokenName_spec_def)
  from ts1 ts2 det java pre names show ?thesis by (intro conjI)
qed

text \<open>
  Two outputs of one transaction, run through the example library: the token names are
  the two hashed byte strings in hexadecimal, and they differ in the last digit.
\<close>

theorem token_names_distinct_witness:
  "decodeHex exampleLib ''a1b2c3d4a1b2c3d4a1b2c3d4a1b2c3d4a1b2c3d4a1b2c3d4a1b2c3d4a1b2c3d4'' =
     Some [161, 178, 195, 212, 161, 178, 195, 212, 161, 178, 195, 212, 161, 178, 195, 212,
           161, 178, 195, 212, 161, 178, 195, 212, 161, 178, 195, 212, 161, 178, 195, 212]
   \<and> inj (encodeHex exampleLib)
   \<and> computeIdentityTokenName exampleLib
        ''a1b2c3d4a1b2c3d4a1b2c3d4a1b2c3d4a1b2c3d4a1b2c3d4a1b2c3d4a1b2c3d4'' 0 =
       Some ''a1b2c3d4a1b2c3d4a1b2c3d4a1b2c3d4a1b2c3d4a1b2c3d4a1b2c3d4a1b2c3d400000000''
   \<and> computeIdentityTokenName exampleLib
        ''a1b2c3d4a1b2c3d4a1b2c3d4a1b2c3d4a1b2c3d4a1b2c3d4a1b2c3d4a1b2c3d4'' 1 =
       Some ''a1b2c3d4a1b2c3d4a1b2c3d4a1b2c3d4a1b2c3d4a1b2c3d4a1b2c3d4a1b2c3d400000001''
   \<and> computeIdentityTokenName_java exampleLib
        ''a1b2c3d4a1b2c3d4a1b2c3d4a1b2c3d4a1b2c3d4a1b2c3d4a1b2c3d4a1b2c3d4'' 0 =
     computeIdentityTokenName exampleLib
        ''a1b2c3d4a1b2c3d4a1b2c3d4a1b2c3d4a1b2c3d4a1b2c3d4a1b2c3d4a1b2c3d4'' 0
   \<and> computeIdentityTokenName exampleLib
        ''a1b2c3d4a1b2c3d4a1b2c3d4a1b2c3d4a1b2c3d4a1b2c3d4a1b2c3d4a1b2c3d4'' 0 \<noteq>
     computeIdentityTokenName exampleLib
        ''a1b2c3d4a1b2c3d4a1b2c3d4a1b2c3d4a1b2c3d4a1b2c3d4a1b2c3d4a1b2c3d4'' 1"
proof -
  let ?h = "''a1b2c3d4a1b2c3d4a1b2c3d4a1b2c3d4a1b2c3d4a1b2c3d4a1b2c3d4a1b2c3d4''"
  let ?b = "[161, 178, 195, 212, 161, 178, 195, 212, 161, 178, 195, 212, 161, 178, 195, 212,
             161, 178, 195, 212, 161, 178, 195, 212, 161, 178, 195, 212, 161, 178, 195, 212] :: byte list"
  have d: "decodeHex exampleLib ?h = Some ?b"
    by (simp add: exampleLib_def hexValue_def)
  have r0: "(0::int) \<le> 0" "(0::int) < 2 ^ 32" and r1: "(0::int) \<le> 1" "(1::int) < 2 ^ 32"
    by simp_all
  have enc: "inj (encodeHex exampleLib)"
    by (simp add: exampleLib_def exampleEncodeHex_inj)
  have ne: "(?b, 0 :: int) \<noteq> (?b, 1)" by simp
  have nocol: "\<not> collision (sha256 exampleLib) (?b @ big_endian 4 (nat 0)) (?b @ big_endian 4 (nat 1))"
    by (simp add: collision_def exampleLib_def)
  note w = token_names_distinct [OF d d r0 r1 enc ne nocol]
  have n0: "computeIdentityTokenName exampleLib ?h 0 =
      Some ''a1b2c3d4a1b2c3d4a1b2c3d4a1b2c3d4a1b2c3d4a1b2c3d4a1b2c3d4a1b2c3d400000000''"
    unfolding token_name_of_bytes [OF d]
    by (simp add: exampleLib_def setUint32_def exampleEncodeHex_def)
  have n1: "computeIdentityTokenName exampleLib ?h 1 =
      Some ''a1b2c3d4a1b2c3d4a1b2c3d4a1b2c3d4a1b2c3d4a1b2c3d4a1b2c3d4a1b2c3d400000001''"
    unfolding token_name_of_bytes [OF d]
    by (simp add: exampleLib_def setUint32_def exampleEncodeHex_def)
  have s0: "sint (0 :: 32 word) = 0" by simp
  note java = w [THEN conjunct2, THEN conjunct2, THEN conjunct2, THEN conjunct1, rule_format, OF s0]
  note names = w [THEN conjunct2, THEN conjunct2, THEN conjunct2, THEN conjunct2, THEN conjunct2]
  from d enc n0 n1 java names show ?thesis by (intro conjI)
qed

end
